theory Spec2Isabelle
  imports Main
begin

section \<open>JavaScript values\<close>

text \<open>
  The values that flow through \<^verbatim>\<open>KuzzleRoom\<close>: filters, headers, room ids, query
  responses and notifications are plain JavaScript values; callbacks are functions.
  A function is either one the caller supplied (\<open>UserFn i\<close>, known only by its
  identity) or the closure that the notification handler passes to \<^verbatim>\<open>self.count\<close>
  (source lines 255-272), which captures \<^verbatim>\<open>listening\<close>, \<^verbatim>\<open>globalEvent\<close>,
  \<^verbatim>\<open>data\<close> and \<^verbatim>\<open>cb\<close>.
\<close>

datatype jsval =
    JUndefined
  | JNull
  | JBool bool
  | JNum int
  | JStr string
  | JObj "(string \<times> jsval) list"
  | JFun callback
and callback =
    UserFn nat
  | CountCb jsval string jsval callback

datatype js_error =
    Error string
  | ErrorWith string jsval
  | TypeError
  | SyntaxError

text \<open>Truthiness, as tested by \<^verbatim>\<open>if (x)\<close>, \<^verbatim>\<open>x && y\<close> and \<^verbatim>\<open>x ? y : z\<close>.\<close>

fun truthy :: "jsval \<Rightarrow> bool" where
  "truthy JUndefined = False"
| "truthy JNull = False"
| "truthy (JBool b) = b"
| "truthy (JNum n) = (n \<noteq> 0)"
| "truthy (JStr s) = (s \<noteq> [])"
| "truthy (JObj fs) = True"
| "truthy (JFun f) = True"

text \<open>
  Property read \<^verbatim>\<open>v.k\<close>: a \<^verbatim>\<open>TypeError\<close> on \<^verbatim>\<open>undefined\<close> and \<^verbatim>\<open>null\<close>,
  the stored value or \<^verbatim>\<open>undefined\<close> on an object, \<^verbatim>\<open>undefined\<close> on the other
  values (none of the keys read by the source is a built-in property of a
  primitive or of a function).
\<close>

definition field :: "(string \<times> jsval) list \<Rightarrow> string \<Rightarrow> jsval" where
  "field fs k = (case map_of fs k of None \<Rightarrow> JUndefined | Some v \<Rightarrow> v)"

fun get_prop :: "jsval \<Rightarrow> string \<Rightarrow> js_error + jsval" where
  "get_prop JUndefined k = Inl TypeError"
| "get_prop JNull k = Inl TypeError"
| "get_prop (JObj fs) k = Inr (field fs k)"
| "get_prop v k = Inr JUndefined"

text \<open>
  Property write \<^verbatim>\<open>v.k = x\<close>: replaces the value of an existing key in place, else
  appends the key; ignored on a primitive (the source is not in strict mode).
\<close>

fun put_field :: "(string \<times> jsval) list \<Rightarrow> string \<Rightarrow> jsval \<Rightarrow> (string \<times> jsval) list" where
  "put_field [] k x = [(k, x)]"
| "put_field ((k', v) # fs) k x = (if k' = k then (k, x) # fs else (k', v) # put_field fs k x)"

fun set_prop :: "jsval \<Rightarrow> string \<Rightarrow> jsval \<Rightarrow> js_error + jsval" where
  "set_prop JUndefined k x = Inl TypeError"
| "set_prop JNull k x = Inl TypeError"
| "set_prop (JObj fs) k x = Inr (JObj (put_field fs k x))"
| "set_prop v k x = Inr v"

text \<open>The \<open>n\<close>-th actual argument of a call; a missing argument is \<^verbatim>\<open>undefined\<close>.\<close>

definition arg :: "nat \<Rightarrow> jsval list \<Rightarrow> jsval" where
  "arg n as = (if n < length as then as ! n else JUndefined)"

text \<open>
  \<^verbatim>\<open>JSON.parse(JSON.stringify(v))\<close>. \<^verbatim>\<open>stringify\<close> gives no text for
  \<^verbatim>\<open>undefined\<close> and for a function: inside an object such a property is dropped,
  at the top \<^verbatim>\<open>parse\<close> rejects the result with a \<^verbatim>\<open>SyntaxError\<close>. An object
  whose \<^verbatim>\<open>toJSON\<close> property is a function is replaced by what that function
  returns; \<open>toJSON f\<close> is what \<^verbatim>\<open>stringify\<close> gets from calling \<open>f\<close>: the error
  the call throws, or the JSON form of the value it returns (\<open>None\<close> when the value
  has none).
\<close>

fun json_value :: "(callback \<Rightarrow> js_error + jsval option) \<Rightarrow> jsval \<Rightarrow> js_error + jsval option"
and json_fields :: "(callback \<Rightarrow> js_error + jsval option) \<Rightarrow> (string \<times> jsval) list
                     \<Rightarrow> js_error + (string \<times> jsval) list" where
  "json_value toJSON JUndefined = Inr None"
| "json_value toJSON (JFun f) = Inr None"
| "json_value toJSON (JObj fs) =
     (case map_of fs ''toJSON'' of
        Some (JFun f) \<Rightarrow> toJSON f
      | _ \<Rightarrow> (case json_fields toJSON fs of
                Inl e \<Rightarrow> Inl e
              | Inr gs \<Rightarrow> Inr (Some (JObj gs))))"
| "json_value toJSON v = Inr (Some v)"
| "json_fields toJSON [] = Inr []"
| "json_fields toJSON ((k, v) # fs) =
     (case json_value toJSON v of
        Inl e \<Rightarrow> Inl e
      | Inr None \<Rightarrow> json_fields toJSON fs
      | Inr (Some w) \<Rightarrow>
          (case json_fields toJSON fs of
             Inl e \<Rightarrow> Inl e
           | Inr gs \<Rightarrow> Inr ((k, w) # gs)))"

definition json_roundtrip :: "(callback \<Rightarrow> js_error + jsval option) \<Rightarrow> jsval \<Rightarrow> js_error + jsval" where
  "json_roundtrip toJSON v =
     (case json_value toJSON v of
        Inl e \<Rightarrow> Inl e
      | Inr None \<Rightarrow> Inl SyntaxError
      | Inr (Some w) \<Rightarrow> Inr w)"

section \<open>The collaborators: query gateway, transport, global listeners\<close>

text \<open>
  The closures handed to \<^verbatim>\<open>kuzzle.query\<close>: the one of \<^verbatim>\<open>count\<close> (source lines
  191-197) captures \<^verbatim>\<open>cb\<close>; the one of \<^verbatim>\<open>renew\<close> (lines 225-278) captures
  \<^verbatim>\<open>cb\<close> and \<^verbatim>\<open>self\<close>.
\<close>

datatype continuation = CountK callback | SubscribeK callback

text \<open>The arguments of one call \<^verbatim>\<open>kuzzle.query(collection, controller, action, data, cb)\<close>.\<close>

record request =
  req_collection :: string
  req_controller :: string
  req_action :: string
  req_data :: jsval
  req_cb :: "continuation option"

text \<open>What the instance does to the outside, in the order it does it.\<close>

datatype event =
    Query request
  | SocketOn jsval callback
  | SocketOff jsval
  | Called nat "jsval list"
  | Notified nat "jsval list"

text \<open>
  The \<^verbatim>\<open>kuzzle\<close> object shared by the instance: whether \<^verbatim>\<open>isValid()\<close> passes, the
  global listener lists \<^verbatim>\<open>eventListeners\<close> (event name to listeners, in order), the
  requests sent and not yet answered, the handlers registered on \<^verbatim>\<open>socket\<close>
  (channel key and the \<^verbatim>\<open>cb\<close> captured by the handler of source lines 236-277),
  and the trace of everything done so far.
\<close>

record kuzzle =
  valid :: bool
  eventListeners :: "(string \<times> nat list) list"
  pending :: "request list"
  handlers :: "(jsval \<times> callback) list"
  trace :: "event list"

text \<open>
  Modelled from the spec: \<^verbatim>\<open>kuzzle.callbackRequired\<close> is not in the sources; the spec
  says a callback argument is required for \<^verbatim>\<open>renew\<close> and \<^verbatim>\<open>count\<close>. It raises
  unless the argument is a function.
\<close>

definition callbackRequired :: "string \<Rightarrow> jsval \<Rightarrow> js_error + callback" where
  "callbackRequired name cb = (case cb of JFun f \<Rightarrow> Inr f | _ \<Rightarrow> Inl (Error name))"

text \<open>
  Modelled from the spec: \<^verbatim>\<open>kuzzle.addHeaders\<close> is not in the sources; the spec says
  the request carries the headers plus its own body. Headers are added to the request
  object for the keys it does not have yet.
\<close>

definition addHeaders :: "jsval \<Rightarrow> jsval \<Rightarrow> jsval" where
  "addHeaders q hs =
     (case (q, hs) of
        (JObj qf, JObj hf) \<Rightarrow> JObj (qf @ filter (\<lambda>(k, v). map_of qf k = None) hf)
      | _ \<Rightarrow> q)"

text \<open>
  Modelled from the spec: the query gateway \<^verbatim>\<open>kuzzle.query\<close> is not in the sources.
  It sends the request; the optional callback later receives \<^verbatim>\<open>(error, response)\<close>,
  once.
\<close>

definition query :: "string \<Rightarrow> string \<Rightarrow> string \<Rightarrow> jsval \<Rightarrow> continuation option \<Rightarrow> kuzzle \<Rightarrow> kuzzle" where
  "query coll controller act d cb kz =
     (let rq = \<lparr>req_collection = coll, req_controller = controller, req_action = act,
                 req_data = d, req_cb = cb\<rparr>
      in kz\<lparr>pending := pending kz @ [rq], trace := trace kz @ [Query rq]\<rparr>)"

text \<open>
  Modelled from the spec: the transport \<^verbatim>\<open>kuzzle.socket\<close> is not in the sources.
  \<^verbatim>\<open>on(key, handler)\<close> registers a handler under a channel key, \<^verbatim>\<open>off(key)\<close>
  removes what is registered under the key.
\<close>

definition socket_on :: "jsval \<Rightarrow> callback \<Rightarrow> kuzzle \<Rightarrow> kuzzle" where
  "socket_on key cb kz =
     kz\<lparr>handlers := handlers kz @ [(key, cb)], trace := trace kz @ [SocketOn key cb]\<rparr>"

definition socket_off :: "jsval \<Rightarrow> kuzzle \<Rightarrow> kuzzle" where
  "socket_off key kz =
     kz\<lparr>handlers := filter (\<lambda>(k, cb). k \<noteq> key) (handlers kz),
        trace := trace kz @ [SocketOff key]\<rparr>"

section \<open>The instance\<close>

text \<open>A queue entry \<^verbatim>\<open>{action: ..., args: [...]}\<close>.\<close>

datatype queued = Queued (action: string) (args: "jsval list")

record room =
  queue :: "queued list"
  subscribing :: bool
  collection :: string
  kuzzle :: kuzzle
  filters :: jsval
  headers :: jsval
  listeningToConnections :: jsval
  listeningToDisconnections :: jsval
  metadata :: jsval
  roomId :: jsval
  subscriptionId :: jsval
  subscriptionTimestamp :: jsval
  subscribeToSelf :: jsval

text \<open>
  The result of running a piece of the source: the instance as it was left, and the
  exception if one was thrown (the mutations made before a \<^verbatim>\<open>throw\<close> stay).
\<close>

type_synonym outcome = "room \<times> js_error option"

text \<open>
  The argument \<^verbatim>\<open>kuzzleDataCollection\<close> of the constructor: its collection name,
  its client and its headers, and what the \<^verbatim>\<open>toJSON\<close> functions found in the
  headers give when \<^verbatim>\<open>JSON.stringify\<close> calls them.
\<close>

record data_collection =
  dc_collection :: string
  dc_kuzzle :: kuzzle
  dc_headers :: jsval
  dc_toJSON :: "callback \<Rightarrow> js_error + jsval option"

text \<open>\<^verbatim>\<open>(options && options.k) ? options.k : false\<close>\<close>

definition option_or_false :: "jsval \<Rightarrow> string \<Rightarrow> jsval" where
  "option_or_false options k =
     (if \<not> truthy options then JBool False
      else case get_prop options k of
             Inl e \<Rightarrow> JBool False
           | Inr v \<Rightarrow> if truthy v then v else JBool False)"

text \<open>
  The constructor (source lines 92-173). \<open>None\<close> is a missing
  \<^verbatim>\<open>kuzzleDataCollection\<close>; an absent \<^verbatim>\<open>options\<close> argument is \<open>JUndefined\<close>.
  \<^verbatim>\<open>kuzzle.isValid()\<close> is not in the sources: it is taken to raise an error of its
  own on an invalidated client and to do nothing else. \<^verbatim>\<open>promisifyAll\<close> adds
  methods and returns the same instance, so both returns give the instance.
\<close>

definition KuzzleRoom :: "data_collection option \<Rightarrow> jsval \<Rightarrow> js_error + room" where
  "KuzzleRoom kuzzleDataCollection options =
     (case kuzzleDataCollection of
        None \<Rightarrow> Inl (Error ''KuzzleRoom: missing parameters'')
      | Some dc \<Rightarrow>
          if \<not> valid (dc_kuzzle dc) then Inl (Error ''Kuzzle.isValid'')
          else
            (case json_roundtrip (dc_toJSON dc) (dc_headers dc) of
               Inl e \<Rightarrow> Inl e
             | Inr h \<Rightarrow>
                   Inr \<lparr>queue = [],
                        subscribing = False,
                        collection = dc_collection dc,
                        kuzzle = dc_kuzzle dc,
                        filters = JNull,
                        headers = h,
                        listeningToConnections = option_or_false options ''listeningToConnections'',
                        listeningToDisconnections = option_or_false options ''listeningToDisconnections'',
                        metadata = JObj [],
                        roomId = JNull,
                        subscriptionId = JNull,
                        subscriptionTimestamp = JNull,
                        subscribeToSelf = option_or_false options ''subscribeToSelf''\<rparr>))"

subsection \<open>unsubscribe (source lines 288-306)\<close>

definition unsubscribe :: "room \<Rightarrow> room" where
  "unsubscribe r =
     (if subscribing r then r\<lparr>queue := queue r @ [Queued ''unsubscribed'' []]\<rparr>
      else if truthy (roomId r) then
        (let d = addHeaders (JObj [(''requestId'', subscriptionId r)]) (headers r);
             r1 = r\<lparr>kuzzle := query (collection r) ''subscribe'' ''off'' d None (kuzzle r)\<rparr>;
             r2 = r1\<lparr>kuzzle := socket_off (roomId r1) (kuzzle r1)\<rparr>
         in r2\<lparr>roomId := JNull, subscriptionId := JNull, subscriptionTimestamp := JNull\<rparr>)
      else r)"

subsection \<open>count (source lines 180-200)\<close>

definition count :: "jsval \<Rightarrow> room \<Rightarrow> outcome" where
  "count cb r =
     (case callbackRequired ''KuzzleRoom.count'' cb of
        Inl e \<Rightarrow> (r, Some e)
      | Inr f \<Rightarrow>
          (let d = addHeaders (JObj [(''body'', JObj [(''roomId'', roomId r)])]) (headers r)
           in if subscribing r then (r\<lparr>queue := queue r @ [Queued ''count'' [cb]]\<rparr>, None)
              else (r\<lparr>kuzzle := query (collection r) ''subscribe'' ''count'' d (Some (CountK f))
                                   (kuzzle r)\<rparr>, None)))"

subsection \<open>renew (source lines 208-281), up to the sending of the request\<close>

definition renew :: "jsval \<Rightarrow> jsval \<Rightarrow> room \<Rightarrow> outcome" where
  "renew fltrs cb r =
     (if subscribing r then (r\<lparr>queue := queue r @ [Queued ''renew'' [fltrs, cb]]\<rparr>, None)
      else case callbackRequired ''KuzzleRoom.renew'' cb of
             Inl e \<Rightarrow> (r, Some e)
           | Inr f \<Rightarrow>
               (let r1 = r\<lparr>filters := fltrs\<rparr>;
                    r2 = unsubscribe r1;
                    subscribeQuery = addHeaders (JObj [(''body'', fltrs)]) (headers r2);
                    r3 = r2\<lparr>subscribing := True\<rparr>
                in (r3\<lparr>kuzzle := query (collection r3) ''subscribe'' ''on'' subscribeQuery
                                     (Some (SubscribeK f)) (kuzzle r3)\<rparr>, None)))"

subsection \<open>dequeue (source lines 311-319)\<close>

text \<open>
  \<^verbatim>\<open>this[element.action]\<close>: the methods of the prototype by name; any other name
  gives \<^verbatim>\<open>undefined\<close>, and \<^verbatim>\<open>undefined.apply\<close> raises a \<^verbatim>\<open>TypeError\<close>.
\<close>

datatype room_method = M_count | M_renew | M_unsubscribe | M_dequeue

definition method_named :: "string \<Rightarrow> room_method option" where
  "method_named name =
     (if name = ''count'' then Some M_count
      else if name = ''renew'' then Some M_renew
      else if name = ''unsubscribe'' then Some M_unsubscribe
      else if name = ''dequeue'' then Some M_dequeue
      else None)"

text \<open>
  The \<^verbatim>\<open>while\<close> loop need not end: \<open>None\<close> is a loop that never returns.
  An exception thrown by a replayed call leaves the loop.
\<close>

partial_function (option) dequeue :: "room \<Rightarrow> outcome option" where
  "dequeue r =
     (case queue r of
        [] \<Rightarrow> Some (r, None)
      | element # rest \<Rightarrow>
          (let r1 = r\<lparr>queue := rest\<rparr> in
           case method_named (action element) of
             None \<Rightarrow> Some (r1, Some TypeError)
           | Some m \<Rightarrow>
               Option.bind
                 (case m of
                    M_count \<Rightarrow> Some (count (arg 0 (args element)) r1)
                  | M_renew \<Rightarrow> Some (renew (arg 0 (args element)) (arg 1 (args element)) r1)
                  | M_unsubscribe \<Rightarrow> Some (unsubscribe r1, None)
                  | M_dequeue \<Rightarrow> dequeue r1)
                 (\<lambda>(r2, thrown).
                    case thrown of
                      Some e \<Rightarrow> Some (r2, Some e)
                    | None \<Rightarrow> dequeue r2)))"

declare dequeue.simps [code]

subsection \<open>Calling a function value\<close>

text \<open>
  A caller-supplied function is recorded with its arguments (it is taken to return
  without touching the instance). The closure of source lines 255-272 runs its body
  with \<^verbatim>\<open>(countError, countResult)\<close>.
\<close>

definition called :: "nat \<Rightarrow> jsval list \<Rightarrow> room \<Rightarrow> room" where
  "called i as r = r\<lparr>kuzzle := (kuzzle r)\<lparr>trace := trace (kuzzle r) @ [Called i as]\<rparr>\<rparr>"

definition notify_all :: "nat list \<Rightarrow> jsval list \<Rightarrow> room \<Rightarrow> room" where
  "notify_all ls as r =
     r\<lparr>kuzzle := (kuzzle r)\<lparr>trace := trace (kuzzle r) @ map (\<lambda>l. Notified l as) ls\<rparr>\<rparr>"

fun call :: "callback \<Rightarrow> jsval list \<Rightarrow> room \<Rightarrow> outcome" where
  "call (UserFn i) as r = (called i as r, None)"
| "call (CountCb listening globalEvent d cb) as r =
     (let countError = arg 0 as; countResult = arg 1 as in
      if truthy countError then
        (if truthy listening then call cb [countError] r else (r, None))
      else
        case get_prop d ''result'' of
          Inl e \<Rightarrow> (r, Some e)
        | Inr res \<Rightarrow>
            (case set_prop res ''count'' countResult of
               Inl e \<Rightarrow> (r, Some e)
             | Inr res' \<Rightarrow>
                 (case (if truthy listening then call cb [JNull, res'] r else (r, None)) of
                    (r1, Some e) \<Rightarrow> (r1, Some e)
                  | (r1, None) \<Rightarrow>
                      (case map_of (eventListeners (kuzzle r1)) globalEvent of
                         None \<Rightarrow> (r1, Some TypeError)
                       | Some ls \<Rightarrow>
                           (notify_all ls [subscriptionId r1, res'] r1, None)))))"

subsection \<open>The closures of count and renew, and the notification handler\<close>

text \<open>The callback of the count query (source lines 191-197), called with \<^verbatim>\<open>(err, res)\<close>.\<close>

definition count_response :: "callback \<Rightarrow> jsval \<Rightarrow> jsval \<Rightarrow> room \<Rightarrow> outcome" where
  "count_response cb err res r =
     (if truthy err then call cb [err] r else call cb [JNull, res] r)"

text \<open>The handler bound by \<^verbatim>\<open>socket.on\<close> (source lines 236-277), called with a message.\<close>

definition handler :: "callback \<Rightarrow> jsval \<Rightarrow> room \<Rightarrow> outcome" where
  "handler cb d r =
     (case get_prop d ''error'' of
        Inl e \<Rightarrow> (r, Some e)
      | Inr err \<Rightarrow>
          if truthy err then call cb [err] r
          else
            (case get_prop d ''result'' of
               Inl e \<Rightarrow> (r, Some e)
             | Inr res \<Rightarrow>
                (case get_prop res ''action'' of
                   Inl e \<Rightarrow> (r, Some e)
                 | Inr act \<Rightarrow>
                     if act = JStr ''on'' \<or> act = JStr ''off'' then
                       (let globalEvent = (if act = JStr ''on'' then ''subscribed'' else ''unsubscribed'');
                            listening = (if act = JStr ''on'' then listeningToConnections r
                                         else listeningToDisconnections r)
                        in if truthy listening then
                             count (JFun (CountCb listening globalEvent d cb)) r
                           else
                             (case map_of (eventListeners (kuzzle r)) globalEvent of
                                None \<Rightarrow> (r, Some TypeError)
                              | Some ls \<Rightarrow>
                                  if length ls > 0 then
                                    count (JFun (CountCb listening globalEvent d cb)) r
                                  else (r, None)))
                     else call cb [JNull, res] r)))"

text \<open>
  The callback of the subscribe query (source lines 225-278), called with
  \<^verbatim>\<open>(error, response)\<close>; \<open>now\<close> is what \<^verbatim>\<open>Date.now()\<close> returns.
\<close>

definition subscribe_response :: "callback \<Rightarrow> jsval \<Rightarrow> jsval \<Rightarrow> int \<Rightarrow> room \<Rightarrow> outcome option" where
  "subscribe_response cb err response now r =
     (if truthy err then Some (r, Some (ErrorWith ''Error during Kuzzle subscription: '' err))
      else
        case get_prop response ''roomId'' of
          Inl e \<Rightarrow> Some (r, Some e)
        | Inr rid \<Rightarrow>
            (let r1 = r\<lparr>roomId := rid\<rparr> in
             case get_prop response ''roomName'' of
               Inl e \<Rightarrow> Some (r1, Some e)
             | Inr rname \<Rightarrow>
                 (let r2 = r1\<lparr>subscriptionId := rname\<rparr>;
                      r3 = r2\<lparr>subscriptionTimestamp := JNum now\<rparr>;
                      r4 = r3\<lparr>subscribing := False\<rparr>
                  in case dequeue r4 of
                       None \<Rightarrow> None
                     | Some (r5, Some e) \<Rightarrow> Some (r5, Some e)
                     | Some (r5, None) \<Rightarrow>
                         Some (r5\<lparr>kuzzle := socket_on (roomId r5) cb (kuzzle r5)\<rparr>, None))))"

section \<open>What the collaborators do to the instance\<close>

text \<open>
  The gateway answers the \<open>i\<close>-th request in flight with \<^verbatim>\<open>(error, response)\<close>: the
  request leaves the pending list and its callback, if it has one, runs.
\<close>

definition respond :: "nat \<Rightarrow> jsval \<Rightarrow> jsval \<Rightarrow> int \<Rightarrow> room \<Rightarrow> outcome option" where
  "respond i err response now r =
     (if i < length (pending (kuzzle r)) then
        (let rq = pending (kuzzle r) ! i;
             r1 = r\<lparr>kuzzle := (kuzzle r)\<lparr>pending := take i (pending (kuzzle r)) @
                                                       drop (Suc i) (pending (kuzzle r))\<rparr>\<rparr>
         in case req_cb rq of
              None \<Rightarrow> Some (r1, None)
            | Some (CountK cb) \<Rightarrow> Some (count_response cb err response r1)
            | Some (SubscribeK cb) \<Rightarrow> subscribe_response cb err response now r1)
      else Some (r, None))"

text \<open>
  The transport delivers a message on a channel key: the handlers registered under
  the key run in order of registration; an exception ends the delivery.
\<close>

fun run_handlers :: "callback list \<Rightarrow> jsval \<Rightarrow> room \<Rightarrow> outcome" where
  "run_handlers [] d r = (r, None)"
| "run_handlers (cb # cbs) d r =
     (case handler cb d r of
        (r1, Some e) \<Rightarrow> (r1, Some e)
      | (r1, None) \<Rightarrow> run_handlers cbs d r1)"

definition deliver :: "jsval \<Rightarrow> jsval \<Rightarrow> room \<Rightarrow> outcome" where
  "deliver key d r =
     run_handlers (map snd (filter (\<lambda>(k, cb). k = key) (handlers (kuzzle r)))) d r"

section \<open>Callers and example states\<close>

text \<open>
  A caller's use of the public operations. Each call is made from the caller's own
  context: an exception of one call (a missing callback) does not stop the next.
\<close>

datatype api_call = Renew jsval jsval | Unsubscribe | Count jsval

fun invoke :: "api_call \<Rightarrow> room \<Rightarrow> outcome" where
  "invoke (Renew fltrs cb) r = renew fltrs cb r"
| "invoke Unsubscribe r = (unsubscribe r, None)"
| "invoke (Count cb) r = count cb r"

fun invoke_all :: "api_call list \<Rightarrow> room \<Rightarrow> room" where
  "invoke_all [] r = r"
| "invoke_all (c # cs) r = invoke_all cs (fst (invoke c r))"

text \<open>The entry each operation pushes while \<^verbatim>\<open>subscribing\<close> (source lines 187, 214, 292).\<close>

fun pushed :: "api_call \<Rightarrow> queued" where
  "pushed (Renew fltrs cb) = Queued ''renew'' [fltrs, cb]"
| "pushed Unsubscribe = Queued ''unsubscribed'' []"
| "pushed (Count cb) = Queued ''count'' [cb]"

fun with_callback :: "api_call \<Rightarrow> bool" where
  "with_callback (Count (JFun f)) = True"
| "with_callback (Count v) = False"
| "with_callback c = True"

text \<open>
  A valid client with no global listener, a data collection on it, and the instance
  the constructor makes from them with no options.
\<close>

definition kuzzle0 :: kuzzle where
  "kuzzle0 = \<lparr>valid = True,
               eventListeners = [(''subscribed'', []), (''unsubscribed'', [])],
               pending = [], handlers = [], trace = []\<rparr>"

definition collection0 :: data_collection where
  "collection0 = \<lparr>dc_collection = ''c'', dc_kuzzle = kuzzle0, dc_headers = JObj [],
                   dc_toJSON = (\<lambda>f. Inr None)\<rparr>"

definition room0 :: room where
  "room0 = \<lparr>queue = [], subscribing = False, collection = ''c'', kuzzle = kuzzle0,
             filters = JNull, headers = JObj [],
             listeningToConnections = JBool False, listeningToDisconnections = JBool False,
             metadata = JObj [], roomId = JNull, subscriptionId = JNull,
             subscriptionTimestamp = JNull, subscribeToSelf = JBool False\<rparr>"

text \<open>The requests the instance \<open>room0\<close> sends: subscribe, unsubscribe and count.\<close>

definition subscribe_request :: "jsval \<Rightarrow> callback \<Rightarrow> request" where
  "subscribe_request fltrs cb =
     \<lparr>req_collection = ''c'', req_controller = ''subscribe'', req_action = ''on'',
      req_data = JObj [(''body'', fltrs)], req_cb = Some (SubscribeK cb)\<rparr>"

definition unsubscribe_request :: "jsval \<Rightarrow> request" where
  "unsubscribe_request sid =
     \<lparr>req_collection = ''c'', req_controller = ''subscribe'', req_action = ''off'',
      req_data = JObj [(''requestId'', sid)], req_cb = None\<rparr>"

definition count_request :: "jsval \<Rightarrow> callback \<Rightarrow> request" where
  "count_request rid cb =
     \<lparr>req_collection = ''c'', req_controller = ''subscribe'', req_action = ''count'',
      req_data = JObj [(''body'', JObj [(''roomId'', rid)])], req_cb = Some (CountK cb)\<rparr>"

text \<open>
  \<open>room0\<close> after \<^verbatim>\<open>renew(fltrs, cb)\<close> (the request in flight), and after the
  response \<^verbatim>\<open>{roomId: rid, roomName: sid}\<close> at time \<open>now\<close> with nothing queued.
\<close>

definition renewing :: "jsval \<Rightarrow> callback \<Rightarrow> room" where
  "renewing fltrs cb =
     room0\<lparr>subscribing := True, filters := fltrs,
           kuzzle := kuzzle0\<lparr>pending := [subscribe_request fltrs cb],
                             trace := [Query (subscribe_request fltrs cb)]\<rparr>\<rparr>"

definition active :: "jsval \<Rightarrow> callback \<Rightarrow> jsval \<Rightarrow> jsval \<Rightarrow> int \<Rightarrow> room" where
  "active fltrs cb rid sid now =
     room0\<lparr>filters := fltrs, roomId := rid, subscriptionId := sid,
           subscriptionTimestamp := JNum now,
           kuzzle := kuzzle0\<lparr>handlers := [(rid, cb)],
                             trace := [Query (subscribe_request fltrs cb), SocketOn rid cb]\<rparr>\<rparr>"

text \<open>
  What happens to an instance over time: a caller's call, the gateway's answer
  \<^verbatim>\<open>(error, response)\<close> to the \<open>i\<close>-th request in flight (at time \<open>now\<close>), or a
  message delivered on a channel. An exception goes to whoever made the call and the
  instance stays as the exception left it; \<open>None\<close> is a step that never returns.
\<close>

datatype step = Call api_call | Response nat jsval jsval int | Message jsval jsval

fun run_step :: "step \<Rightarrow> room \<Rightarrow> outcome option" where
  "run_step (Call c) r = Some (invoke c r)"
| "run_step (Response i err response now) r = respond i err response now r"
| "run_step (Message key d) r = Some (deliver key d r)"

fun run :: "step list \<Rightarrow> room \<Rightarrow> room option" where
  "run [] r = Some r"
| "run (s # ss) r = (case run_step s r of None \<Rightarrow> None | Some (r', thrown) \<Rightarrow> run ss r')"

text \<open>The instance the constructor makes with \<^verbatim>\<open>{listeningToConnections: true}\<close>.\<close>

definition listening_room :: room where
  "listening_room = room0\<lparr>listeningToConnections := JBool True\<rparr>"

text \<open>
  Two subscribed instances for lifecycle notifications: one whose gate flag
  \<^verbatim>\<open>listeningToConnections\<close> is true, one whose flag is false while a global listener
  is registered for \<^verbatim>\<open>'subscribed'\<close>.
\<close>

definition active_listening :: room where
  "active_listening =
     (active (JStr ''f'') (UserFn 1) (JStr ''r1'') (JStr ''s1'') 5)
       \<lparr>listeningToConnections := JBool True\<rparr>"

definition active_observed :: room where
  "active_observed =
     (active (JStr ''f'') (UserFn 1) (JStr ''r1'') (JStr ''s1'') 5)
       \<lparr>kuzzle := (kuzzle (active (JStr ''f'') (UserFn 1) (JStr ''r1'') (JStr ''s1'') 5))
                    \<lparr>eventListeners := [(''subscribed'', [7]), (''unsubscribed'', [])]\<rparr>\<rparr>"

text \<open>The notification \<^verbatim>\<open>{result: {action: 'on'}}\<close>.\<close>

definition peer_subscribed :: jsval where
  "peer_subscribed = JObj [(''result'', JObj [(''action'', JStr ''on'')])]"

text \<open>A queued \<^verbatim>\<open>count\<close> whose argument is a function.\<close>

definition count_entry :: "queued \<Rightarrow> bool" where
  "count_entry e =
     (action e = ''count'' \<and> (case arg 0 (args e) of JFun f \<Rightarrow> True | _ \<Rightarrow> False))"

text \<open>
  An entry that, replayed while \<^verbatim>\<open>subscribing\<close> is true, is pushed again: a
  \<^verbatim>\<open>renew\<close>, or a \<^verbatim>\<open>count\<close> whose first argument is a function.
\<close>

definition requeued :: "queued \<Rightarrow> bool" where
  "requeued e =
     (action e = ''renew'' \<or>
      (action e = ''count'' \<and> (case arg 0 (args e) of JFun f \<Rightarrow> True | _ \<Rightarrow> False)))"

section \<open>Unfolding the loop\<close>

lemma dequeue_Nil: "queue r = [] \<Longrightarrow> dequeue r = Some (r, None)"
  by (subst dequeue.simps) simp

lemma dequeue_unknown:
  "queue r = Queued a as # rest \<Longrightarrow> method_named a = None \<Longrightarrow>
   dequeue r = Some (r\<lparr>queue := rest\<rparr>, Some TypeError)"
  by (subst dequeue.simps) simp

lemma dequeue_count:
  "queue r = Queued ''count'' as # rest \<Longrightarrow>
   dequeue r = (case count (arg 0 as) (r\<lparr>queue := rest\<rparr>) of
                  (r2, Some e) \<Rightarrow> Some (r2, Some e)
                | (r2, None) \<Rightarrow> dequeue r2)"
  by (subst dequeue.simps) (simp add: method_named_def split: prod.splits option.splits)

lemma dequeue_renew:
  "queue r = Queued ''renew'' as # rest \<Longrightarrow>
   dequeue r = (case renew (arg 0 as) (arg 1 as) (r\<lparr>queue := rest\<rparr>) of
                  (r2, Some e) \<Rightarrow> Some (r2, Some e)
                | (r2, None) \<Rightarrow> dequeue r2)"
  by (subst dequeue.simps) (simp add: method_named_def split: prod.splits option.splits)

lemmas run_defs = respond_def subscribe_response_def count_response_def handler_def deliver_def
  renew_def count_def unsubscribe_def query_def socket_on_def socket_off_def addHeaders_def
  callbackRequired_def called_def notify_all_def arg_def field_def Let_def

lemmas example_defs = room0_def kuzzle0_def collection0_def subscribe_request_def
  unsubscribe_request_def renewing_def active_def

lemma renew_room0: "renew fl (JFun cb) room0 = (renewing fl cb, None)"
  by (simp add: run_defs example_defs)

lemma respond_renewing:
  "respond 0 JNull (JObj [(''roomId'', rid), (''roomName'', sid)]) now (renewing fl cb)
     = Some (active fl cb rid sid now, None)"
  by (simp add: run_defs example_defs dequeue_Nil)

section \<open>Calls made while a subscription is in flight\<close>

lemma invoke_while_subscribing:
  "subscribing r \<Longrightarrow> with_callback c \<Longrightarrow>
   invoke c r = (r\<lparr>queue := queue r @ [pushed c]\<rparr>, None)"
  by (induction c rule: with_callback.induct)
     (simp_all add: renew_def count_def unsubscribe_def callbackRequired_def)

lemma invoke_all_while_subscribing:
  "subscribing r \<Longrightarrow> list_all with_callback cs \<Longrightarrow>
   invoke_all cs r = r\<lparr>queue := queue r @ map pushed cs\<rparr>"
  by (induction cs arbitrary: r) (simp_all add: invoke_while_subscribing)

lemma invoke_keeps_subscribing:
  "subscribing r \<Longrightarrow> subscribing (fst (invoke c r)) \<and> kuzzle (fst (invoke c r)) = kuzzle r"
  by (cases c) (simp_all add: renew_def count_def unsubscribe_def Let_def split: sum.splits)

lemma invoke_all_keeps_subscribing:
  "subscribing r \<Longrightarrow> subscribing (invoke_all cs r) \<and> kuzzle (invoke_all cs r) = kuzzle r"
proof (induction cs arbitrary: r)
  case Nil
  then show ?case by simp
next
  case (Cons c cs)
  from Cons.prems have step: "subscribing (fst (invoke c r))" "kuzzle (fst (invoke c r)) = kuzzle r"
    using invoke_keeps_subscribing by blast+
  from Cons.IH[OF step(1)] step(2) show ?case by simp
qed

section \<open>The constructor\<close>

text \<open>
  The three outcomes of the copy of the headers: a plain object is copied, an object
  with a \<^verbatim>\<open>toJSON\<close> function becomes what the function gives, and the constructor
  throws when there is nothing to parse.
\<close>

lemma constructor_copies_headers:
  "valid (dc_kuzzle dc) \<Longrightarrow> dc_headers dc = JObj [(''a'', JNum 1), (''b'', JUndefined)] \<Longrightarrow>
   map_sum id headers (KuzzleRoom (Some dc) options) = Inr (JObj [(''a'', JNum 1)])"
  "valid (dc_kuzzle dc) \<Longrightarrow> dc_headers dc = JObj [(''toJSON'', JFun f)] \<Longrightarrow>
   dc_toJSON dc f = Inr (Some h) \<Longrightarrow>
   map_sum id headers (KuzzleRoom (Some dc) options) = Inr h"
  "valid (dc_kuzzle dc) \<Longrightarrow> dc_headers dc = JObj [(''toJSON'', JFun f)] \<Longrightarrow>
   dc_toJSON dc f = Inr None \<Longrightarrow>
   KuzzleRoom (Some dc) options = Inl SyntaxError"
  "valid (dc_kuzzle dc) \<Longrightarrow> dc_headers dc = JUndefined \<Longrightarrow>
   KuzzleRoom (Some dc) options = Inl SyntaxError"
  by (simp_all add: KuzzleRoom_def json_roundtrip_def)

text \<open>
  C10. When the constructor is called without an options argument, or with options
  that lack these keys, and it returns (the client is valid and the JSON copy of the
  headers exists), the flags \<^verbatim>\<open>listeningToConnections\<close>,
  \<^verbatim>\<open>listeningToDisconnections\<close> and \<^verbatim>\<open>subscribeToSelf\<close> are all false,
  \<^verbatim>\<open>filters\<close>, \<^verbatim>\<open>roomId\<close>, \<^verbatim>\<open>subscriptionId\<close> and
  \<^verbatim>\<open>subscriptionTimestamp\<close> are all null, the queue is empty and
  \<^verbatim>\<open>subscribing\<close> is false.
\<close>

theorem constructor_defaults:
  assumes "valid (dc_kuzzle dc)" and "json_roundtrip (dc_toJSON dc) (dc_headers dc) = Inr h"
    and "options = JUndefined \<or>
         (get_prop options ''listeningToConnections'' = Inr JUndefined \<and>
          get_prop options ''listeningToDisconnections'' = Inr JUndefined \<and>
          get_prop options ''subscribeToSelf'' = Inr JUndefined)"
  shows "\<exists>r. KuzzleRoom (Some dc) options = Inr r \<and>
           listeningToConnections r = JBool False \<and>
           listeningToDisconnections r = JBool False \<and>
           subscribeToSelf r = JBool False \<and>
           filters r = JNull \<and> roomId r = JNull \<and> subscriptionId r = JNull \<and>
           subscriptionTimestamp r = JNull \<and> queue r = [] \<and> \<not> subscribing r"
  using assms by (auto simp: KuzzleRoom_def option_or_false_def)

theorem constructor_defaults_witness:
  "valid (dc_kuzzle collection0) \<and>
   json_roundtrip (dc_toJSON collection0) (dc_headers collection0) = Inr (JObj []) \<and>
   KuzzleRoom (Some collection0) JUndefined = Inr room0 \<and>
   KuzzleRoom (Some collection0) (JObj [(''volatile'', JNum 1)]) = Inr room0 \<and>
   listeningToConnections room0 = JBool False \<and>
   listeningToDisconnections room0 = JBool False \<and>
   subscribeToSelf room0 = JBool False \<and>
   filters room0 = JNull \<and> roomId room0 = JNull \<and> subscriptionId room0 = JNull \<and>
   subscriptionTimestamp room0 = JNull \<and> queue room0 = [] \<and> \<not> subscribing room0"
proof -
  have v: "valid (dc_kuzzle collection0)"
    and j: "json_roundtrip (dc_toJSON collection0) (dc_headers collection0) = Inr (JObj [])"
    by (simp_all add: collection0_def kuzzle0_def json_roundtrip_def)
  have a: "KuzzleRoom (Some collection0) JUndefined = Inr room0"
    using constructor_defaults[OF v j, of JUndefined]
    by (simp add: KuzzleRoom_def json_roundtrip_def option_or_false_def example_defs)
  have b: "KuzzleRoom (Some collection0) (JObj [(''volatile'', JNum 1)]) = Inr room0"
    using constructor_defaults[OF v j, of "JObj [(''volatile'', JNum 1)]"]
    by (simp add: KuzzleRoom_def json_roundtrip_def option_or_false_def example_defs field_def)
  show ?thesis using v j a b by (simp add: room0_def)
qed

section \<open>Replaying the queue\<close>

text \<open>
  C1. Calls made while \<^verbatim>\<open>subscribing\<close> is true are appended to the queue with no
  network action (\<open>invoke_all_while_subscribing\<close>), but they are not all replayed as
  the operation they were: \<^verbatim>\<open>unsubscribe\<close> pushes the name
  \<^verbatim>\<open>'unsubscribed'\<close>, which is no method of the instance. After
  \<^verbatim>\<open>renew('f', cb1); unsubscribe()\<close>, the successful subscribe response stores the
  room id, then \<^verbatim>\<open>dequeue\<close> raises a \<^verbatim>\<open>TypeError\<close>: no unsubscribe request is
  sent, the room id stays, and the notification handler is never bound.
\<close>

theorem queued_unsubscribe_is_not_replayed:
  "invoke_all [Renew (JStr ''f'') (JFun (UserFn 1)), Unsubscribe] room0
     = (renewing (JStr ''f'') (UserFn 1))\<lparr>queue := [Queued ''unsubscribed'' []]\<rparr> \<and>
   respond 0 JNull (JObj [(''roomId'', JStr ''r1''), (''roomName'', JStr ''s1'')]) 5
     ((renewing (JStr ''f'') (UserFn 1))\<lparr>queue := [Queued ''unsubscribed'' []]\<rparr>)
     = Some (room0\<lparr>filters := JStr ''f'', roomId := JStr ''r1'', subscriptionId := JStr ''s1'',
                   subscriptionTimestamp := JNum 5,
                   kuzzle := kuzzle0\<lparr>trace := [Query (subscribe_request (JStr ''f'') (UserFn 1))]\<rparr>\<rparr>,
             Some TypeError)"
  by (simp add: run_defs example_defs dequeue_unknown method_named_def)

text \<open>
  A second way the replay goes wrong: a replayed \<^verbatim>\<open>renew\<close> sets
  \<^verbatim>\<open>subscribing\<close> again, so every entry behind it is shifted off the queue and
  pushed back, and the loop never ends.
\<close>

lemma dequeue_spins_aux:
  assumes "dequeue r = Some y"
  shows "\<not> (subscribing r \<and> queue r \<noteq> [] \<and> list_all requeued (queue r))"
proof (rule dequeue.raw_induct[where P = "\<lambda>r y. \<not> (subscribing r \<and> queue r \<noteq> [] \<and> list_all requeued (queue r))"
                                 and r = r and y = y], goal_cases)
  case (1 dq r y)
  show ?case
  proof
    assume inv: "subscribing r \<and> queue r \<noteq> [] \<and> list_all requeued (queue r)"
    then obtain a as rest where q: "queue r = Queued a as # rest"
      by (cases "queue r") (auto intro: queued.exhaust)
    from inv q have rq: "requeued (Queued a as)" and rest: "list_all requeued rest" by simp_all
    let ?r1 = "r\<lparr>queue := rest\<rparr>"
    from inv have s1: "subscribing ?r1" by simp
    from rq consider (renew) "a = ''renew''" | (count) f where "a = ''count''" "arg 0 as = JFun f"
      by (auto simp: requeued_def split: jsval.splits)
    then show False
    proof cases
      case renew
      let ?r2 = "?r1\<lparr>queue := rest @ [Queued ''renew'' [arg 0 as, arg 1 as]]\<rparr>"
      from 1(2) q renew s1 have "dq ?r2 = Some y"
        by (simp add: method_named_def renew_def)
      moreover have "subscribing ?r2 \<and> queue ?r2 \<noteq> [] \<and> list_all requeued (queue ?r2)"
        using s1 rest by (simp add: requeued_def)
      ultimately show False using 1(1) by blast
    next
      case count
      let ?r2 = "?r1\<lparr>queue := rest @ [Queued ''count'' [JFun f]]\<rparr>"
      from 1(2) q count s1 have "dq ?r2 = Some y"
        by (simp add: method_named_def count_def callbackRequired_def Let_def)
      moreover have "subscribing ?r2 \<and> queue ?r2 \<noteq> [] \<and> list_all requeued (queue ?r2)"
        using s1 rest by (simp add: requeued_def arg_def)
      ultimately show False using 1(1) by blast
    qed
  qed
next
  case 2
  show ?case by (rule assms)
qed

lemma dequeue_spins:
  "subscribing r \<Longrightarrow> queue r \<noteq> [] \<Longrightarrow> list_all requeued (queue r) \<Longrightarrow> dequeue r = None"
  using dequeue_spins_aux[of r] by (cases "dequeue r") auto

lemma queued_renew_then_count_never_returns:
  "respond 0 JNull (JObj [(''roomId'', JStr ''r1''), (''roomName'', JStr ''s1'')]) 5
     (invoke_all [Renew (JStr ''f'') (JFun (UserFn 1)), Renew (JStr ''g'') (JFun (UserFn 2)),
                  Count (JFun (UserFn 3))] room0) = None"
proof -
  have "dequeue (room0\<lparr>filters := JStr ''g'', subscribing := True, queue := [Queued ''count'' [JFun (UserFn 3)]],
       kuzzle := kuzzle0\<lparr>pending := [unsubscribe_request (JStr ''s1''), subscribe_request (JStr ''g'') (UserFn 2)],
          trace := [Query (subscribe_request (JStr ''f'') (UserFn 1)), Query (unsubscribe_request (JStr ''s1'')),
             SocketOff (JStr ''r1''), Query (subscribe_request (JStr ''g'') (UserFn 2))]\<rparr>\<rparr>) = None"
    by (rule dequeue_spins) (simp_all add: requeued_def arg_def)
  then show ?thesis
    by (simp add: run_defs example_defs dequeue_renew)
qed



section \<open>Renewing twice\<close>

lemma renew_proceeds:
  assumes "\<not> subscribing r"
  shows "renew fl (JFun cb) r =
           ((unsubscribe (r\<lparr>filters := fl\<rparr>))
              \<lparr>subscribing := True,
               kuzzle := query (collection r) ''subscribe'' ''on''
                           (addHeaders (JObj [(''body'', fl)]) (headers r))
                           (Some (SubscribeK cb))
                           (kuzzle (unsubscribe (r\<lparr>filters := fl\<rparr>)))\<rparr>, None)"
  using assms by (simp add: renew_def callbackRequired_def unsubscribe_def Let_def)

text \<open>
  A second \<^verbatim>\<open>renew\<close> made after the first response detaches the first handler.
\<close>

lemma sequential_renews_leave_one_handler:
  "map_option (\<lambda>r. handlers (kuzzle r))
     (run [Call (Renew (JStr ''f'') (JFun (UserFn 1))),
           Response 0 JNull (JObj [(''roomId'', JStr ''r1''), (''roomName'', JStr ''s1'')]) 5,
           Call (Renew (JStr ''g'') (JFun (UserFn 2))),
           Response 1 JNull (JObj [(''roomId'', JStr ''r2''), (''roomName'', JStr ''s2'')]) 6]
        room0)
   = Some [(JStr ''r2'', UserFn 2)]"
  by (simp add: run_defs example_defs dequeue_Nil)

text \<open>
  C6. A \<^verbatim>\<open>renew\<close> that proceeds runs its unsubscribe step before it sends the
  subscribe request (\<open>renew_proceeds\<close>), yet two back-to-back calls end with two
  handlers on the transport. After \<^verbatim>\<open>renew('f', cb1); renew('g', cb2)\<close> and the two
  successful responses, the handler of the first call is registered under the key
  \<^verbatim>\<open>null\<close> and that of the second under \<^verbatim>\<open>'r2'\<close>: the first response
  replays the queued \<^verbatim>\<open>renew\<close> (whose unsubscribe step calls
  \<^verbatim>\<open>socket.off('r1')\<close> and clears \<^verbatim>\<open>roomId\<close>) before it reaches its own
  \<^verbatim>\<open>socket.on(self.roomId, ...)\<close>.
\<close>

theorem queued_renew_leaves_two_handlers:
  "run [Call (Renew (JStr ''f'') (JFun (UserFn 1))),
        Call (Renew (JStr ''g'') (JFun (UserFn 2))),
        Response 0 JNull (JObj [(''roomId'', JStr ''r1''), (''roomName'', JStr ''s1'')]) 5,
        Response 1 JNull (JObj [(''roomId'', JStr ''r2''), (''roomName'', JStr ''s2'')]) 6]
     room0
   = Some (room0\<lparr>filters := JStr ''g'', roomId := JStr ''r2'', subscriptionId := JStr ''s2'',
                 subscriptionTimestamp := JNum 6,
                 kuzzle := kuzzle0
                   \<lparr>pending := [unsubscribe_request (JStr ''s1'')],
                    handlers := [(JNull, UserFn 1), (JStr ''r2'', UserFn 2)],
                    trace := [Query (subscribe_request (JStr ''f'') (UserFn 1)),
                              Query (unsubscribe_request (JStr ''s1'')),
                              SocketOff (JStr ''r1''),
                              Query (subscribe_request (JStr ''g'') (UserFn 2)),
                              SocketOn JNull (UserFn 1),
                              SocketOn (JStr ''r2'') (UserFn 2)]\<rparr>\<rparr>)"
  by (simp add: run_defs example_defs dequeue_renew dequeue_Nil)

section \<open>The subscribe response\<close>

lemma respond_subscribe_error:
  assumes "i < length (pending (kuzzle r))"
    and "req_cb (pending (kuzzle r) ! i) = Some (SubscribeK cb)"
    and "truthy err"
  shows "respond i err response now r =
           Some (r\<lparr>kuzzle := (kuzzle r)\<lparr>pending := take i (pending (kuzzle r)) @
                                                    drop (Suc i) (pending (kuzzle r))\<rparr>\<rparr>,
                 Some (ErrorWith ''Error during Kuzzle subscription: '' err))"
  using assms by (simp add: respond_def subscribe_response_def Let_def)

text \<open>
  C2, as stated, fails: when the subscribe request of \<^verbatim>\<open>renew\<close> completes with an
  error, the callback throws at once and \<^verbatim>\<open>subscribing\<close> stays true; the calls
  made afterwards are queued and never run.
\<close>

theorem subscribe_error_locks_instance:
  "respond 0 (JStr ''boom'') JUndefined 5 (renewing (JStr ''f'') (UserFn 1))
     = Some ((renewing (JStr ''f'') (UserFn 1))
               \<lparr>kuzzle := kuzzle0\<lparr>trace := [Query (subscribe_request (JStr ''f'') (UserFn 1))]\<rparr>\<rparr>,
             Some (ErrorWith ''Error during Kuzzle subscription: '' (JStr ''boom''))) \<and>
   subscribing ((renewing (JStr ''f'') (UserFn 1))
               \<lparr>kuzzle := kuzzle0\<lparr>trace := [Query (subscribe_request (JStr ''f'') (UserFn 1))]\<rparr>\<rparr>) \<and>
   run [Call (Renew (JStr ''f'') (JFun (UserFn 1))),
        Response 0 (JStr ''boom'') JUndefined 5,
        Call (Count (JFun (UserFn 2))),
        Call Unsubscribe] room0
     = Some ((renewing (JStr ''f'') (UserFn 1))
               \<lparr>queue := [Queued ''count'' [JFun (UserFn 2)], Queued ''unsubscribed'' []],
                kuzzle := kuzzle0\<lparr>trace := [Query (subscribe_request (JStr ''f'') (UserFn 1))]\<rparr>\<rparr>)"
  by (simp add: run_defs example_defs)

text \<open>
  C2, amended. If the subscribe request issued by \<^verbatim>\<open>renew\<close> completes with an
  error, the response callback throws and leaves the instance in the Subscribing
  state: \<^verbatim>\<open>subscribing\<close> stays true, the queue is not drained, and every later
  \<^verbatim>\<open>renew\<close>, \<^verbatim>\<open>unsubscribe\<close> or \<^verbatim>\<open>count\<close> call is only queued (it sends
  nothing and calls nothing).
\<close>

theorem subscribe_error_keeps_subscribing:
  assumes "subscribing r"
    and "i < length (pending (kuzzle r))"
    and "req_cb (pending (kuzzle r) ! i) = Some (SubscribeK cb)"
    and "truthy err"
  shows "\<exists>r'. respond i err response now r =
                 Some (r', Some (ErrorWith ''Error during Kuzzle subscription: '' err)) \<and>
              subscribing r' \<and> queue r' = queue r \<and> trace (kuzzle r') = trace (kuzzle r) \<and>
              (\<forall>cs. subscribing (invoke_all cs r') \<and>
                    trace (kuzzle (invoke_all cs r')) = trace (kuzzle r))"
proof -
  let ?r' = "r\<lparr>kuzzle := (kuzzle r)\<lparr>pending := take i (pending (kuzzle r)) @
                                                  drop (Suc i) (pending (kuzzle r))\<rparr>\<rparr>"
  have "respond i err response now r =
          Some (?r', Some (ErrorWith ''Error during Kuzzle subscription: '' err))"
    using assms(2-4) by (rule respond_subscribe_error)
  moreover have s: "subscribing ?r'" using assms(1) by simp
  moreover have "queue ?r' = queue r" "trace (kuzzle ?r') = trace (kuzzle r)" by simp_all
  moreover have "\<forall>cs. subscribing (invoke_all cs ?r') \<and>
                     trace (kuzzle (invoke_all cs ?r')) = trace (kuzzle r)"
    using invoke_all_keeps_subscribing[OF s] by simp
  ultimately show ?thesis by blast
qed

theorem subscribe_error_keeps_subscribing_witness:
  "subscribing (renewing (JStr ''f'') (UserFn 1)) \<and>
   0 < length (pending (kuzzle (renewing (JStr ''f'') (UserFn 1)))) \<and>
   req_cb (pending (kuzzle (renewing (JStr ''f'') (UserFn 1))) ! 0) = Some (SubscribeK (UserFn 1)) \<and>
   truthy (JStr ''boom'') \<and>
   (\<exists>r'. respond 0 (JStr ''boom'') JUndefined 5 (renewing (JStr ''f'') (UserFn 1)) =
                 Some (r', Some (ErrorWith ''Error during Kuzzle subscription: '' (JStr ''boom''))) \<and>
              subscribing r' \<and> queue r' = [] \<and>
              subscribing (invoke_all [Count (JFun (UserFn 2)), Unsubscribe] r'))"
proof -
  have h: "subscribing (renewing (JStr ''f'') (UserFn 1))"
    "0 < length (pending (kuzzle (renewing (JStr ''f'') (UserFn 1))))"
    "req_cb (pending (kuzzle (renewing (JStr ''f'') (UserFn 1))) ! 0) = Some (SubscribeK (UserFn 1))"
    "truthy (JStr ''boom'')"
    by (simp_all add: example_defs)
  have q: "queue (renewing (JStr ''f'') (UserFn 1)) = []" by (simp add: example_defs)
  from subscribe_error_keeps_subscribing[OF h, of JUndefined 5] q h show ?thesis
    by metis
qed

section \<open>What a failed renew leaves behind\<close>


lemma unsubscribe_idle:
  "\<not> subscribing r \<Longrightarrow> \<not> truthy (roomId r) \<Longrightarrow> unsubscribe r = r"
  by (simp add: unsubscribe_def)

lemma unsubscribe_fields:
  assumes "\<not> subscribing r"
  shows "filters (unsubscribe r) = filters r"
    and "\<not> subscribing (unsubscribe r)"
    and "queue (unsubscribe r) = queue r"
    and "roomId (unsubscribe r) = (if truthy (roomId r) then JNull else roomId r)"
    and "subscriptionId (unsubscribe r) = (if truthy (roomId r) then JNull else subscriptionId r)"
    and "subscriptionTimestamp (unsubscribe r) =
           (if truthy (roomId r) then JNull else subscriptionTimestamp r)"
    and "handlers (kuzzle (unsubscribe r)) =
           (if truthy (roomId r) then filter (\<lambda>(k, c). k \<noteq> roomId r) (handlers (kuzzle r))
            else handlers (kuzzle r))"
  using assms by (simp_all add: unsubscribe_def query_def socket_off_def Let_def)

text \<open>
  C3, as stated, fails: \<^verbatim>\<open>renew\<close> stores the new filters and tears the previous
  subscription down before it sends the request. On an instance subscribed with
  filters \<^verbatim>\<open>'f'\<close> to room \<^verbatim>\<open>'r1'\<close>, a \<^verbatim>\<open>renew('g', cb2)\<close> whose request
  fails leaves filters \<^verbatim>\<open>'g'\<close>, null identity fields and no handler.
\<close>

theorem failed_renew_changes_state:
  "run [Call (Renew (JStr ''f'') (JFun (UserFn 1))),
        Response 0 JNull (JObj [(''roomId'', JStr ''r1''), (''roomName'', JStr ''s1'')]) 5] room0
     = Some (room0\<lparr>filters := JStr ''f'', roomId := JStr ''r1'', subscriptionId := JStr ''s1'',
                   subscriptionTimestamp := JNum 5,
                   kuzzle := kuzzle0
                     \<lparr>handlers := [(JStr ''r1'', UserFn 1)],
                      trace := [Query (subscribe_request (JStr ''f'') (UserFn 1)),
                                SocketOn (JStr ''r1'') (UserFn 1)]\<rparr>\<rparr>) \<and>
   run [Call (Renew (JStr ''f'') (JFun (UserFn 1))),
        Response 0 JNull (JObj [(''roomId'', JStr ''r1''), (''roomName'', JStr ''s1'')]) 5,
        Call (Renew (JStr ''g'') (JFun (UserFn 2))),
        Response 1 (JStr ''boom'') JUndefined 6] room0
     = Some (room0\<lparr>subscribing := True,
                   filters := JStr ''g'', roomId := JNull, subscriptionId := JNull,
                   subscriptionTimestamp := JNull,
                   kuzzle := kuzzle0
                     \<lparr>pending := [unsubscribe_request (JStr ''s1'')],
                      handlers := [],
                      trace := [Query (subscribe_request (JStr ''f'') (UserFn 1)),
                                SocketOn (JStr ''r1'') (UserFn 1),
                                Query (unsubscribe_request (JStr ''s1'')),
                                SocketOff (JStr ''r1''),
                                Query (subscribe_request (JStr ''g'') (UserFn 2))]\<rparr>\<rparr>)"
  by (simp add: run_defs example_defs dequeue_Nil)

text \<open>
  C3, amended. If the subscribe request issued by \<^verbatim>\<open>renew\<close> completes with an
  error, the response callback throws and commits nothing of its own: the instance
  is as the \<^verbatim>\<open>renew\<close> call itself left it (but for the answered request), that
  is with the new filters, with the previous subscription torn down (identity fields
  null and the handler of the old room id detached, when there was a truthy room id)
  and with \<^verbatim>\<open>subscribing\<close> still true. It is not the state before the call.
\<close>

theorem failed_renew_keeps_what_renew_did:
  assumes "\<not> subscribing r" and "truthy err"
  shows "\<exists>r1 r2.
           renew fl (JFun cb) r = (r1, None) \<and>
           respond (length (pending (kuzzle r1)) - 1) err response now r1 =
             Some (r2, Some (ErrorWith ''Error during Kuzzle subscription: '' err)) \<and>
           filters r2 = fl \<and>
           roomId r2 = (if truthy (roomId r) then JNull else roomId r) \<and>
           subscriptionId r2 = (if truthy (roomId r) then JNull else subscriptionId r) \<and>
           subscriptionTimestamp r2 =
             (if truthy (roomId r) then JNull else subscriptionTimestamp r) \<and>
           handlers (kuzzle r2) =
             (if truthy (roomId r) then filter (\<lambda>(k, c). k \<noteq> roomId r) (handlers (kuzzle r))
              else handlers (kuzzle r)) \<and>
           subscribing r2 \<and>
           r2 = r1\<lparr>kuzzle := (kuzzle r1)\<lparr>pending := butlast (pending (kuzzle r1))\<rparr>\<rparr>"
proof -
  let ?u = "unsubscribe (r\<lparr>filters := fl\<rparr>)"
  let ?r1 = "?u\<lparr>subscribing := True,
               kuzzle := query (collection r) ''subscribe'' ''on''
                           (addHeaders (JObj [(''body'', fl)]) (headers r))
                           (Some (SubscribeK cb)) (kuzzle ?u)\<rparr>"
  let ?i = "length (pending (kuzzle ?r1)) - 1"
  let ?r2 = "?r1\<lparr>kuzzle := (kuzzle ?r1)\<lparr>pending := butlast (pending (kuzzle ?r1))\<rparr>\<rparr>"
  have ns: "\<not> subscribing (r\<lparr>filters := fl\<rparr>)" using assms(1) by simp
  have a: "renew fl (JFun cb) r = (?r1, None)" using assms(1) by (rule renew_proceeds)
  have p: "pending (kuzzle ?r1) = pending (kuzzle ?u) @
             [\<lparr>req_collection = collection r, req_controller = ''subscribe'', req_action = ''on'',
               req_data = addHeaders (JObj [(''body'', fl)]) (headers r),
               req_cb = Some (SubscribeK cb)\<rparr>]"
    by (simp add: query_def Let_def)
  have i: "?i < length (pending (kuzzle ?r1))" using p by simp
  have c: "req_cb (pending (kuzzle ?r1) ! ?i) = Some (SubscribeK cb)" using p by simp
  have t: "take ?i (pending (kuzzle ?r1)) @ drop (Suc ?i) (pending (kuzzle ?r1))
             = butlast (pending (kuzzle ?r1))" using p by simp
  have b: "respond ?i err response now ?r1 =
             Some (?r2, Some (ErrorWith ''Error during Kuzzle subscription: '' err))"
    using respond_subscribe_error[OF i c assms(2), of response now] t by simp
  have f: "filters ?r2 = fl" "subscribing ?r2"
    using unsubscribe_fields(1)[OF ns] by simp_all
  have g: "roomId ?r2 = (if truthy (roomId r) then JNull else roomId r)"
    "subscriptionId ?r2 = (if truthy (roomId r) then JNull else subscriptionId r)"
    "subscriptionTimestamp ?r2 = (if truthy (roomId r) then JNull else subscriptionTimestamp r)"
    using unsubscribe_fields(4-6)[OF ns] by simp_all
  have h: "handlers (kuzzle ?r2) =
             (if truthy (roomId r) then filter (\<lambda>(k, c). k \<noteq> roomId r) (handlers (kuzzle r))
              else handlers (kuzzle r))"
    using unsubscribe_fields(7)[OF ns] by (simp add: query_def Let_def)
  from a b f g h show ?thesis by blast
qed

theorem failed_renew_keeps_what_renew_did_witness:
  "\<not> subscribing (active (JStr ''f'') (UserFn 1) (JStr ''r1'') (JStr ''s1'') 5) \<and>
   truthy (JStr ''boom'') \<and>
   (\<exists>r1 r2.
      renew (JStr ''g'') (JFun (UserFn 2)) (active (JStr ''f'') (UserFn 1) (JStr ''r1'') (JStr ''s1'') 5)
        = (r1, None) \<and>
      respond (length (pending (kuzzle r1)) - 1) (JStr ''boom'') JUndefined 6 r1 =
        Some (r2, Some (ErrorWith ''Error during Kuzzle subscription: '' (JStr ''boom''))) \<and>
      filters r2 = JStr ''g'' \<and> roomId r2 = JNull \<and> subscriptionId r2 = JNull \<and>
      subscriptionTimestamp r2 = JNull \<and> handlers (kuzzle r2) = [] \<and> subscribing r2)"
proof -
  let ?a = "active (JStr ''f'') (UserFn 1) (JStr ''r1'') (JStr ''s1'') 5"
  have h: "\<not> subscribing ?a" "truthy (JStr ''boom'')"
    by (simp_all add: example_defs)
  have v: "truthy (roomId ?a)" "roomId ?a = JStr ''r1''"
    "handlers (kuzzle ?a) = [(JStr ''r1'', UserFn 1)]"
    by (simp_all add: example_defs)
  from failed_renew_keeps_what_renew_did[OF h, of "JStr ''g''" "UserFn 2" JUndefined 6]
  obtain r1 r2 where
    "renew (JStr ''g'') (JFun (UserFn 2)) ?a = (r1, None)"
    "respond (length (pending (kuzzle r1)) - 1) (JStr ''boom'') JUndefined 6 r1 =
       Some (r2, Some (ErrorWith ''Error during Kuzzle subscription: '' (JStr ''boom'')))"
    "filters r2 = JStr ''g''" "roomId r2 = JNull" "subscriptionId r2 = JNull"
    "subscriptionTimestamp r2 = JNull" "handlers (kuzzle r2) = []" "subscribing r2"
    using v by auto
  with h show ?thesis by blast
qed

section \<open>A successful renew\<close>

lemma dequeue_counts:
  "\<not> subscribing r \<Longrightarrow> list_all count_entry (queue r) \<Longrightarrow>
   \<exists>r'. dequeue r = Some (r', None) \<and> queue r' = [] \<and> \<not> subscribing r' \<and>
        roomId r' = roomId r \<and> subscriptionId r' = subscriptionId r \<and>
        subscriptionTimestamp r' = subscriptionTimestamp r \<and>
        handlers (kuzzle r') = handlers (kuzzle r)"
proof (induction "queue r" arbitrary: r)
  case Nil
  then show ?case by (simp add: dequeue_Nil)
next
  case (Cons e rest)
  obtain a as where e: "e = Queued a as" by (cases e)
  from Cons.prems(2) Cons.hyps(2)[symmetric] e obtain f where
    a: "a = ''count''" and f: "arg 0 as = JFun f" and rest: "list_all count_entry rest"
    by (auto simp: count_entry_def split: jsval.splits)
  let ?r1 = "r\<lparr>queue := rest\<rparr>"
  let ?d = "addHeaders (JObj [(''body'', JObj [(''roomId'', roomId r)])]) (headers r)"
  let ?r2 = "?r1\<lparr>kuzzle := query (collection r) ''subscribe'' ''count'' ?d (Some (CountK f))
                              (kuzzle r)\<rparr>"
  have c: "count (arg 0 as) ?r1 = (?r2, None)"
    using Cons.prems(1) f by (simp add: count_def callbackRequired_def Let_def)
  have d: "dequeue r = dequeue ?r2"
    using dequeue_count[of r as rest] Cons.hyps(2)[symmetric] e a c by simp
  have "rest = queue ?r2" by simp
  from Cons.hyps(1)[OF this] Cons.prems(1) rest
  obtain r' where "dequeue ?r2 = Some (r', None)" "queue r' = []" "\<not> subscribing r'"
    "roomId r' = roomId ?r2" "subscriptionId r' = subscriptionId ?r2"
    "subscriptionTimestamp r' = subscriptionTimestamp ?r2"
    "handlers (kuzzle r') = handlers (kuzzle ?r2)"
    by auto
  with d show ?case by (auto simp: query_def Let_def)
qed

text \<open>
  C4, as stated, fails, in four runs. (1) While the request of \<^verbatim>\<open>renew('f', cb1)\<close> is
  in flight a second \<^verbatim>\<open>renew('g', cb2)\<close> is queued; the successful response to the
  first is processed, the queued call is replayed, and the identity fields are null
  and \<^verbatim>\<open>subscribing\<close> is true. (2) The same happens to a \<^verbatim>\<open>renew('h', cb3)\<close>
  during which nothing is queued, when an earlier replay that threw has left a
  \<^verbatim>\<open>renew\<close> entry in the queue. (3) A response whose \<^verbatim>\<open>roomId\<close> and
  \<^verbatim>\<open>roomName\<close> are null is stored as it is. (4) A response that carries them under
  \<^verbatim>\<open>result\<close> leaves \<^verbatim>\<open>roomId\<close> and \<^verbatim>\<open>subscriptionId\<close> undefined.
\<close>

theorem renew_success_without_identity:
  "run [Call (Renew (JStr ''f'') (JFun (UserFn 1))),
        Call (Renew (JStr ''g'') (JFun (UserFn 2))),
        Response 0 JNull (JObj [(''roomId'', JStr ''r1''), (''roomName'', JStr ''s1'')]) 5]
     room0
     = Some (room0\<lparr>subscribing := True,
                   filters := JStr ''g'', roomId := JNull, subscriptionId := JNull,
                   subscriptionTimestamp := JNull,
                   kuzzle := kuzzle0
                     \<lparr>pending := [unsubscribe_request (JStr ''s1''),
                                  subscribe_request (JStr ''g'') (UserFn 2)],
                      handlers := [(JNull, UserFn 1)],
                      trace := [Query (subscribe_request (JStr ''f'') (UserFn 1)),
                                Query (unsubscribe_request (JStr ''s1'')),
                                SocketOff (JStr ''r1''),
                                Query (subscribe_request (JStr ''g'') (UserFn 2)),
                                SocketOn JNull (UserFn 1)]\<rparr>\<rparr>) \<and>
   run [Call (Renew (JStr ''f'') (JFun (UserFn 1))),
        Call Unsubscribe,
        Call (Renew (JStr ''g'') (JFun (UserFn 2))),
        Response 0 JNull (JObj [(''roomId'', JStr ''r1''), (''roomName'', JStr ''s1'')]) 5]
     room0
     = Some (room0\<lparr>queue := [Queued ''renew'' [JStr ''g'', JFun (UserFn 2)]],
                   filters := JStr ''f'', roomId := JStr ''r1'', subscriptionId := JStr ''s1'',
                   subscriptionTimestamp := JNum 5,
                   kuzzle := kuzzle0
                     \<lparr>trace := [Query (subscribe_request (JStr ''f'') (UserFn 1))]\<rparr>\<rparr>) \<and>
   run [Call (Renew (JStr ''f'') (JFun (UserFn 1))),
        Call Unsubscribe,
        Call (Renew (JStr ''g'') (JFun (UserFn 2))),
        Response 0 JNull (JObj [(''roomId'', JStr ''r1''), (''roomName'', JStr ''s1'')]) 5,
        Call (Renew (JStr ''h'') (JFun (UserFn 3))),
        Response 1 JNull (JObj [(''roomId'', JStr ''r3''), (''roomName'', JStr ''s3'')]) 6]
     room0
     = Some (room0\<lparr>subscribing := True,
                   filters := JStr ''g'', roomId := JNull, subscriptionId := JNull,
                   subscriptionTimestamp := JNull,
                   kuzzle := kuzzle0
                     \<lparr>pending := [unsubscribe_request (JStr ''s1''),
                                  unsubscribe_request (JStr ''s3''),
                                  subscribe_request (JStr ''g'') (UserFn 2)],
                      handlers := [(JNull, UserFn 3)],
                      trace := [Query (subscribe_request (JStr ''f'') (UserFn 1)),
                                Query (unsubscribe_request (JStr ''s1'')),
                                SocketOff (JStr ''r1''),
                                Query (subscribe_request (JStr ''h'') (UserFn 3)),
                                Query (unsubscribe_request (JStr ''s3'')),
                                SocketOff (JStr ''r3''),
                                Query (subscribe_request (JStr ''g'') (UserFn 2)),
                                SocketOn JNull (UserFn 3)]\<rparr>\<rparr>) \<and>
   run [Call (Renew (JStr ''f'') (JFun (UserFn 1))),
        Response 0 JNull (JObj [(''roomId'', JNull), (''roomName'', JNull)]) 5]
     room0
     = Some (room0\<lparr>filters := JStr ''f'', roomId := JNull, subscriptionId := JNull,
                   subscriptionTimestamp := JNum 5,
                   kuzzle := kuzzle0
                     \<lparr>handlers := [(JNull, UserFn 1)],
                      trace := [Query (subscribe_request (JStr ''f'') (UserFn 1)),
                                SocketOn JNull (UserFn 1)]\<rparr>\<rparr>) \<and>
   run [Call (Renew (JStr ''f'') (JFun (UserFn 1))),
        Response 0 JNull
          (JObj [(''result'', JObj [(''roomId'', JStr ''r1''), (''roomName'', JStr ''s1'')])]) 5]
     room0
     = Some (room0\<lparr>filters := JStr ''f'', roomId := JUndefined, subscriptionId := JUndefined,
                   subscriptionTimestamp := JNum 5,
                   kuzzle := kuzzle0
                     \<lparr>handlers := [(JUndefined, UserFn 1)],
                      trace := [Query (subscribe_request (JStr ''f'') (UserFn 1)),
                                SocketOn JUndefined (UserFn 1)]\<rparr>\<rparr>)"
  by (simp add: run_defs example_defs dequeue_renew dequeue_unknown dequeue_Nil method_named_def)

text \<open>
  C4, amended. After a \<^verbatim>\<open>renew\<close> call whose subscribe request completes
  successfully, if the response's \<^verbatim>\<open>roomId\<close> and \<^verbatim>\<open>roomName\<close> are neither null
  nor undefined and, at the moment the response is processed, the queue holds nothing
  but \<^verbatim>\<open>count\<close> entries (no \<^verbatim>\<open>renew\<close> or \<^verbatim>\<open>unsubscribe\<close> entry, whether
  queued during this \<^verbatim>\<open>renew\<close> or left in the queue by an earlier replay that
  threw), then \<^verbatim>\<open>roomId\<close>, \<^verbatim>\<open>subscriptionId\<close> and \<^verbatim>\<open>subscriptionTimestamp\<close>
  are all neither null nor undefined (the response's \<^verbatim>\<open>roomId\<close> and
  \<^verbatim>\<open>roomName\<close>, and the current time), \<^verbatim>\<open>subscribing\<close> is false, the queue is
  empty and the handler is bound under the room id.
\<close>

theorem renew_success_sets_identity:
  assumes "i < length (pending (kuzzle r))"
    and "req_cb (pending (kuzzle r) ! i) = Some (SubscribeK cb)"
    and "\<not> truthy err"
    and "get_prop response ''roomId'' = Inr rid" and "rid \<noteq> JNull" and "rid \<noteq> JUndefined"
    and "get_prop response ''roomName'' = Inr sid" and "sid \<noteq> JNull" and "sid \<noteq> JUndefined"
    and "list_all count_entry (queue r)"
  shows "\<exists>r'. respond i err response now r = Some (r', None) \<and>
              roomId r' = rid \<and> subscriptionId r' = sid \<and>
              subscriptionTimestamp r' = JNum now \<and>
              roomId r' \<noteq> JNull \<and> roomId r' \<noteq> JUndefined \<and>
              subscriptionId r' \<noteq> JNull \<and> subscriptionId r' \<noteq> JUndefined \<and>
              subscriptionTimestamp r' \<noteq> JNull \<and> subscriptionTimestamp r' \<noteq> JUndefined \<and>
              \<not> subscribing r' \<and> queue r' = [] \<and>
              (rid, cb) \<in> set (handlers (kuzzle r'))"
proof -
  let ?r0 = "r\<lparr>kuzzle := (kuzzle r)\<lparr>pending := take i (pending (kuzzle r)) @
                                                  drop (Suc i) (pending (kuzzle r))\<rparr>\<rparr>"
  let ?r4 = "?r0\<lparr>roomId := rid, subscriptionId := sid, subscriptionTimestamp := JNum now,
                 subscribing := False\<rparr>"
  have "\<not> subscribing ?r4" "list_all count_entry (queue ?r4)" using assms(10) by simp_all
  from dequeue_counts[OF this] obtain r5 where
    d: "dequeue ?r4 = Some (r5, None)" and s: "\<not> subscribing r5" and q: "queue r5 = []" and
    f: "roomId r5 = rid" "subscriptionId r5 = sid" "subscriptionTimestamp r5 = JNum now"
    by auto
  let ?r' = "r5\<lparr>kuzzle := socket_on (roomId r5) cb (kuzzle r5)\<rparr>"
  have "respond i err response now r = Some (?r', None)"
    using assms(1-4,7) d by (simp add: respond_def subscribe_response_def Let_def)
  moreover have "(rid, cb) \<in> set (handlers (kuzzle ?r'))"
    using f(1) by (simp add: socket_on_def)
  ultimately show ?thesis using s q f assms(5,6,8,9) by auto
qed

theorem renew_success_sets_identity_witness:
  "\<exists>r'. run [Call (Renew (JStr ''f'') (JFun (UserFn 1))), Call (Count (JFun (UserFn 2)))] room0
          = Some ((renewing (JStr ''f'') (UserFn 1))\<lparr>queue := [Queued ''count'' [JFun (UserFn 2)]]\<rparr>) \<and>
        respond 0 JNull (JObj [(''roomId'', JStr ''r1''), (''roomName'', JStr ''s1'')]) 5
          ((renewing (JStr ''f'') (UserFn 1))\<lparr>queue := [Queued ''count'' [JFun (UserFn 2)]]\<rparr>)
          = Some (r', None) \<and>
        roomId r' = JStr ''r1'' \<and> subscriptionId r' = JStr ''s1'' \<and>
        subscriptionTimestamp r' = JNum 5 \<and> \<not> subscribing r' \<and> queue r' = [] \<and>
        (JStr ''r1'', UserFn 1) \<in> set (handlers (kuzzle r'))"
proof -
  let ?r = "(renewing (JStr ''f'') (UserFn 1))\<lparr>queue := [Queued ''count'' [JFun (UserFn 2)]]\<rparr>"
  let ?resp = "JObj [(''roomId'', JStr ''r1''), (''roomName'', JStr ''s1'')]"
  have h: "0 < length (pending (kuzzle ?r))"
    "req_cb (pending (kuzzle ?r) ! 0) = Some (SubscribeK (UserFn 1))"
    "\<not> truthy JNull"
    "get_prop ?resp ''roomId'' = Inr (JStr ''r1'')" "JStr ''r1'' \<noteq> JNull" "JStr ''r1'' \<noteq> JUndefined"
    "get_prop ?resp ''roomName'' = Inr (JStr ''s1'')" "JStr ''s1'' \<noteq> JNull" "JStr ''s1'' \<noteq> JUndefined"
    "list_all count_entry (queue ?r)"
    by (simp_all add: example_defs field_def count_entry_def arg_def)
  have a: "run [Call (Renew (JStr ''f'') (JFun (UserFn 1))), Call (Count (JFun (UserFn 2)))] room0
             = Some ?r"
    by (simp add: run_defs example_defs)
  from renew_success_sets_identity[OF h, of 5] a show ?thesis by auto
qed

section \<open>Unsubscribing\<close>

lemma run_handlers_Nil_deliver:
  "filter (\<lambda>(k, c). k = key) (handlers (kuzzle r)) = [] \<Longrightarrow> deliver key d r = (r, None)"
  by (simp add: deliver_def)

text \<open>
  C5, as stated, fails: \<^verbatim>\<open>unsubscribe\<close> tests \<^verbatim>\<open>if (this.roomId)\<close>, so a room id
  that is not null but falsy (here the number 0, stored from a successful subscribe
  response) is left alone: nothing is sent, the handler stays, the fields stay.
\<close>

theorem unsubscribe_skips_falsy_room_id:
  "run [Call (Renew (JStr ''f'') (JFun (UserFn 1))),
        Response 0 JNull (JObj [(''roomId'', JNum 0), (''roomName'', JStr ''s1'')]) 5] room0
     = Some (active (JStr ''f'') (UserFn 1) (JNum 0) (JStr ''s1'') 5) \<and>
   roomId (active (JStr ''f'') (UserFn 1) (JNum 0) (JStr ''s1'') 5) \<noteq> JNull \<and>
   \<not> subscribing (active (JStr ''f'') (UserFn 1) (JNum 0) (JStr ''s1'') 5) \<and>
   unsubscribe (active (JStr ''f'') (UserFn 1) (JNum 0) (JStr ''s1'') 5)
     = active (JStr ''f'') (UserFn 1) (JNum 0) (JStr ''s1'') 5 \<and>
   handlers (kuzzle (active (JStr ''f'') (UserFn 1) (JNum 0) (JStr ''s1'') 5))
     = [(JNum 0, UserFn 1)]"
  by (simp add: run_defs example_defs dequeue_Nil)

text \<open>
  C5, amended. For every instance with a truthy \<^verbatim>\<open>roomId\<close> (not null, and not
  \<^verbatim>\<open>undefined\<close>, \<^verbatim>\<open>0\<close>, \<^verbatim>\<open>''\<close> or \<^verbatim>\<open>false\<close>) and \<^verbatim>\<open>subscribing\<close> false,
  \<^verbatim>\<open>unsubscribe\<close> sends one unsubscribe request that has no callback (whatever the
  gateway answers, an error included, changes nothing but the list of requests in
  flight and raises nothing), removes the transport handlers of the old room id (a
  later message on that id reaches no handler), and sets \<^verbatim>\<open>roomId\<close>,
  \<^verbatim>\<open>subscriptionId\<close> and \<^verbatim>\<open>subscriptionTimestamp\<close> to null.
\<close>

theorem unsubscribe_active:
  assumes "\<not> subscribing r" and "truthy (roomId r)"
  shows "roomId (unsubscribe r) = JNull \<and>
         subscriptionId (unsubscribe r) = JNull \<and>
         subscriptionTimestamp (unsubscribe r) = JNull \<and>
         pending (kuzzle (unsubscribe r)) =
           pending (kuzzle r) @
             [\<lparr>req_collection = collection r, req_controller = ''subscribe'',
               req_action = ''off'',
               req_data = addHeaders (JObj [(''requestId'', subscriptionId r)]) (headers r),
               req_cb = None\<rparr>] \<and>
         trace (kuzzle (unsubscribe r)) =
           trace (kuzzle r) @
             [Query \<lparr>req_collection = collection r, req_controller = ''subscribe'',
                     req_action = ''off'',
                     req_data = addHeaders (JObj [(''requestId'', subscriptionId r)]) (headers r),
                     req_cb = None\<rparr>,
              SocketOff (roomId r)] \<and>
         handlers (kuzzle (unsubscribe r)) =
           filter (\<lambda>(k, c). k \<noteq> roomId r) (handlers (kuzzle r)) \<and>
         deliver (roomId r) d (unsubscribe r) = (unsubscribe r, None) \<and>
         respond (length (pending (kuzzle r))) err response now (unsubscribe r) =
           Some ((unsubscribe r)\<lparr>kuzzle := (kuzzle (unsubscribe r))\<lparr>pending := pending (kuzzle r)\<rparr>\<rparr>,
                 None)"
proof -
  let ?rq = "\<lparr>req_collection = collection r, req_controller = ''subscribe'',
               req_action = ''off'',
               req_data = addHeaders (JObj [(''requestId'', subscriptionId r)]) (headers r),
               req_cb = None\<rparr>"
  have u: "unsubscribe r =
             r\<lparr>kuzzle := (kuzzle r)\<lparr>pending := pending (kuzzle r) @ [?rq],
                                     trace := trace (kuzzle r) @ [Query ?rq, SocketOff (roomId r)],
                                     handlers := filter (\<lambda>(k, c). k \<noteq> roomId r) (handlers (kuzzle r))\<rparr>,
               roomId := JNull, subscriptionId := JNull, subscriptionTimestamp := JNull\<rparr>"
    using assms by (simp add: unsubscribe_def query_def socket_off_def Let_def)
  have f: "filter (\<lambda>(k, c). k = roomId r) (handlers (kuzzle (unsubscribe r))) = []"
    by (subst u) (auto simp: filter_empty_conv)
  have d: "deliver (roomId r) d (unsubscribe r) = (unsubscribe r, None)"
    using f by (rule run_handlers_Nil_deliver)
  have p: "respond (length (pending (kuzzle r))) err response now (unsubscribe r) =
             Some ((unsubscribe r)\<lparr>kuzzle := (kuzzle (unsubscribe r))\<lparr>pending := pending (kuzzle r)\<rparr>\<rparr>,
                   None)"
    by (subst u, subst u, subst u) (simp add: respond_def Let_def)
  show ?thesis using d p by (simp add: u)
qed

theorem unsubscribe_active_witness:
  "\<not> subscribing (active (JStr ''f'') (UserFn 1) (JStr ''r1'') (JStr ''s1'') 5) \<and>
   truthy (roomId (active (JStr ''f'') (UserFn 1) (JStr ''r1'') (JStr ''s1'') 5)) \<and>
   unsubscribe (active (JStr ''f'') (UserFn 1) (JStr ''r1'') (JStr ''s1'') 5) =
     room0\<lparr>filters := JStr ''f'',
           kuzzle := kuzzle0\<lparr>pending := [unsubscribe_request (JStr ''s1'')],
                             trace := [Query (subscribe_request (JStr ''f'') (UserFn 1)),
                                       SocketOn (JStr ''r1'') (UserFn 1),
                                       Query (unsubscribe_request (JStr ''s1'')),
                                       SocketOff (JStr ''r1'')]\<rparr>\<rparr> \<and>
   deliver (JStr ''r1'') (JObj [(''result'', JObj [(''action'', JStr ''update'')])])
     (unsubscribe (active (JStr ''f'') (UserFn 1) (JStr ''r1'') (JStr ''s1'') 5))
     = (unsubscribe (active (JStr ''f'') (UserFn 1) (JStr ''r1'') (JStr ''s1'') 5), None) \<and>
   respond 0 (JStr ''gone'') JUndefined 6
     (unsubscribe (active (JStr ''f'') (UserFn 1) (JStr ''r1'') (JStr ''s1'') 5))
     = Some (room0\<lparr>filters := JStr ''f'',
                   kuzzle := kuzzle0\<lparr>trace := [Query (subscribe_request (JStr ''f'') (UserFn 1)),
                                       SocketOn (JStr ''r1'') (UserFn 1),
                                       Query (unsubscribe_request (JStr ''s1'')),
                                       SocketOff (JStr ''r1'')]\<rparr>\<rparr>, None)"
proof -
  let ?a = "active (JStr ''f'') (UserFn 1) (JStr ''r1'') (JStr ''s1'') 5"
  have h: "\<not> subscribing ?a" "truthy (roomId ?a)" by (simp_all add: example_defs)
  have l: "length (pending (kuzzle ?a)) = 0" "roomId ?a = JStr ''r1''"
    by (simp_all add: example_defs)
  have u: "unsubscribe ?a =
     room0\<lparr>filters := JStr ''f'',
           kuzzle := kuzzle0\<lparr>pending := [unsubscribe_request (JStr ''s1'')],
                             trace := [Query (subscribe_request (JStr ''f'') (UserFn 1)),
                                       SocketOn (JStr ''r1'') (UserFn 1),
                                       Query (unsubscribe_request (JStr ''s1'')),
                                       SocketOff (JStr ''r1'')]\<rparr>\<rparr>"
    by (simp add: run_defs example_defs)
  from unsubscribe_active[OF h, of "JObj [(''result'', JObj [(''action'', JStr ''update'')])]"
      "JStr ''gone''" JUndefined 6]
  have "deliver (JStr ''r1'') (JObj [(''result'', JObj [(''action'', JStr ''update'')])])
          (unsubscribe ?a) = (unsubscribe ?a, None)"
    and "respond 0 (JStr ''gone'') JUndefined 6 (unsubscribe ?a) =
          Some ((unsubscribe ?a)\<lparr>kuzzle := (kuzzle (unsubscribe ?a))\<lparr>pending := pending (kuzzle ?a)\<rparr>\<rparr>, None)"
    using l by simp_all
  moreover have "(unsubscribe ?a)\<lparr>kuzzle := (kuzzle (unsubscribe ?a))\<lparr>pending := pending (kuzzle ?a)\<rparr>\<rparr>
      = room0\<lparr>filters := JStr ''f'',
                   kuzzle := kuzzle0\<lparr>trace := [Query (subscribe_request (JStr ''f'') (UserFn 1)),
                                       SocketOn (JStr ''r1'') (UserFn 1),
                                       Query (unsubscribe_request (JStr ''s1'')),
                                       SocketOff (JStr ''r1'')]\<rparr>\<rparr>"
    by (subst u, subst u) (simp add: example_defs)
  ultimately show ?thesis using h u by simp
qed

section \<open>Lifecycle notifications\<close>

lemma run_handlers_unchanged:
  "(\<And>cb. handler cb d r = (r, None)) \<Longrightarrow> run_handlers cbs d r = (r, None)"
  by (induction cbs) simp_all

text \<open>
  C7, as stated, fails: the handler looks at the error payload first. A message that
  carries an error and whose result action is \<^verbatim>\<open>'on'\<close> calls the subscription's
  callback with the error, although the gate flag is false and no global listener is
  registered.
\<close>

theorem lifecycle_message_with_error_calls_back:
  "\<not> truthy (listeningToConnections (active (JStr ''f'') (UserFn 1) (JStr ''r1'') (JStr ''s1'') 5)) \<and>
   map_of (eventListeners (kuzzle (active (JStr ''f'') (UserFn 1) (JStr ''r1'') (JStr ''s1'') 5)))
     ''subscribed'' = Some [] \<and>
   deliver (JStr ''r1'')
     (JObj [(''error'', JStr ''boom''), (''result'', JObj [(''action'', JStr ''on'')])])
     (active (JStr ''f'') (UserFn 1) (JStr ''r1'') (JStr ''s1'') 5)
     = (called 1 [JStr ''boom''] (active (JStr ''f'') (UserFn 1) (JStr ''r1'') (JStr ''s1'') 5), None) \<and>
   trace (kuzzle (called 1 [JStr ''boom''] (active (JStr ''f'') (UserFn 1) (JStr ''r1'') (JStr ''s1'') 5)))
     = [Query (subscribe_request (JStr ''f'') (UserFn 1)), SocketOn (JStr ''r1'') (UserFn 1),
        Called 1 [JStr ''boom'']]"
  by (simp add: run_defs example_defs)

text \<open>
  C7, amended. For every inbound notification that carries no error payload and whose
  result action is \<^verbatim>\<open>'on'\<close> or \<^verbatim>\<open>'off'\<close>, if the instance's gate flag
  (\<^verbatim>\<open>listeningToConnections\<close> for \<^verbatim>\<open>'on'\<close>, \<^verbatim>\<open>listeningToDisconnections\<close> for
  \<^verbatim>\<open>'off'\<close>) is false and the global listener list (\<^verbatim>\<open>'subscribed'\<close>, respectively
  \<^verbatim>\<open>'unsubscribed'\<close>) is empty, the handler leaves everything as it was: no count
  query is issued and no callback or listener is invoked.
\<close>

theorem lifecycle_without_listener_is_dropped:
  assumes "get_prop d ''error'' = Inr e" and "\<not> truthy e"
    and "get_prop d ''result'' = Inr res" and "get_prop res ''action'' = Inr act"
    and "(act = JStr ''on'' \<and> \<not> truthy (listeningToConnections r) \<and>
          map_of (eventListeners (kuzzle r)) ''subscribed'' = Some []) \<or>
         (act = JStr ''off'' \<and> \<not> truthy (listeningToDisconnections r) \<and>
          map_of (eventListeners (kuzzle r)) ''unsubscribed'' = Some [])"
  shows "handler cb d r = (r, None) \<and> deliver key d r = (r, None)"
proof -
  have h: "handler c d r = (r, None)" for c
    using assms by (auto simp: handler_def Let_def)
  then have "run_handlers cbs d r = (r, None)" for cbs
    by (rule run_handlers_unchanged)
  then show ?thesis using h by (simp add: deliver_def)
qed

theorem lifecycle_without_listener_is_dropped_witness:
  "get_prop (JObj [(''result'', JObj [(''action'', JStr ''off'')])]) ''error'' = Inr JUndefined \<and>
   \<not> truthy JUndefined \<and>
   \<not> truthy (listeningToDisconnections (active (JStr ''f'') (UserFn 1) (JStr ''r1'') (JStr ''s1'') 5)) \<and>
   map_of (eventListeners (kuzzle (active (JStr ''f'') (UserFn 1) (JStr ''r1'') (JStr ''s1'') 5)))
     ''unsubscribed'' = Some [] \<and>
   handlers (kuzzle (active (JStr ''f'') (UserFn 1) (JStr ''r1'') (JStr ''s1'') 5))
     = [(JStr ''r1'', UserFn 1)] \<and>
   deliver (JStr ''r1'') (JObj [(''result'', JObj [(''action'', JStr ''off'')])])
     (active (JStr ''f'') (UserFn 1) (JStr ''r1'') (JStr ''s1'') 5)
     = (active (JStr ''f'') (UserFn 1) (JStr ''r1'') (JStr ''s1'') 5, None)"
proof -
  let ?a = "active (JStr ''f'') (UserFn 1) (JStr ''r1'') (JStr ''s1'') 5"
  let ?d = "JObj [(''result'', JObj [(''action'', JStr ''off'')])]"
  have h: "get_prop ?d ''error'' = Inr JUndefined" "\<not> truthy JUndefined"
    "get_prop ?d ''result'' = Inr (JObj [(''action'', JStr ''off'')])"
    "get_prop (JObj [(''action'', JStr ''off'')]) ''action'' = Inr (JStr ''off'')"
    by (simp_all add: field_def)
  have g: "\<not> truthy (listeningToDisconnections ?a)"
    "map_of (eventListeners (kuzzle ?a)) ''unsubscribed'' = Some []"
    "handlers (kuzzle ?a) = [(JStr ''r1'', UserFn 1)]"
    by (simp_all add: example_defs)
  have "(JStr ''off'' = JStr ''on'' \<and> \<not> truthy (listeningToConnections ?a) \<and>
          map_of (eventListeners (kuzzle ?a)) ''subscribed'' = Some []) \<or>
         (JStr ''off'' = JStr ''off'' \<and> \<not> truthy (listeningToDisconnections ?a) \<and>
          map_of (eventListeners (kuzzle ?a)) ''unsubscribed'' = Some [])"
    using g by simp
  from lifecycle_without_listener_is_dropped[OF h this, of "UserFn 1" "JStr ''r1''"] h g
  show ?thesis by simp
qed

lemma count_closure_on_error:
  "truthy countError \<Longrightarrow>
   count_response (CountCb listening ev d (UserFn n)) countError countResult r =
     ((if truthy listening then called n [countError] r else r), None)"
  by (simp add: count_response_def arg_def)

text \<open>
  C8. For every lifecycle notification (\<^verbatim>\<open>'on'\<close> or \<^verbatim>\<open>'off'\<close>, no error payload)
  whose dispatch proceeds (the gate flag is true or the global listener list is not
  empty; the instance is not subscribing, so the count query is sent), if the count
  query fails, whenever its answer comes, the subscription's callback is invoked with
  the count error exactly when the gate flag is true, and nothing else is invoked: no
  global listener.
\<close>

theorem failed_count_reaches_callback_only_when_listening:
  assumes "\<not> subscribing r"
    and "get_prop d ''error'' = Inr e" and "\<not> truthy e"
    and "get_prop d ''result'' = Inr res" and "get_prop res ''action'' = Inr act"
    and "(act = JStr ''on'' \<and> listening = listeningToConnections r \<and> ev = ''subscribed'') \<or>
         (act = JStr ''off'' \<and> listening = listeningToDisconnections r \<and> ev = ''unsubscribed'')"
    and "truthy listening \<or> (\<exists>l ls. map_of (eventListeners (kuzzle r)) ev = Some (l # ls))"
    and "truthy countError"
  shows "\<exists>r1 rq.
           handler (UserFn n) d r = (r1, None) \<and>
           req_action rq = ''count'' \<and>
           req_cb rq = Some (CountK (CountCb listening ev d (UserFn n))) \<and>
           pending (kuzzle r1) = pending (kuzzle r) @ [rq] \<and>
           trace (kuzzle r1) = trace (kuzzle r) @ [Query rq] \<and>
           (\<forall>r' i. i < length (pending (kuzzle r')) \<and> pending (kuzzle r') ! i = rq \<longrightarrow>
              (\<exists>r2. respond i countError countResult now r' = Some (r2, None) \<and>
                    trace (kuzzle r2) =
                      trace (kuzzle r') @
                        (if truthy listening then [Called n [countError]] else [])))"
proof -
  let ?rq = "\<lparr>req_collection = collection r, req_controller = ''subscribe'',
               req_action = ''count'',
               req_data = addHeaders (JObj [(''body'', JObj [(''roomId'', roomId r)])]) (headers r),
               req_cb = Some (CountK (CountCb listening ev d (UserFn n)))\<rparr>"
  let ?r1 = "r\<lparr>kuzzle := (kuzzle r)\<lparr>pending := pending (kuzzle r) @ [?rq],
                                     trace := trace (kuzzle r) @ [Query ?rq]\<rparr>\<rparr>"
  have c: "count (JFun (CountCb listening ev d (UserFn n))) r = (?r1, None)"
    using assms(1) by (simp add: count_def callbackRequired_def query_def Let_def)
  have a: "handler (UserFn n) d r = (?r1, None)"
    using assms(2-7) c by (auto simp: handler_def Let_def)
  have b: "\<exists>r2. respond i countError countResult now r' = Some (r2, None) \<and>
                trace (kuzzle r2) =
                  trace (kuzzle r') @ (if truthy listening then [Called n [countError]] else [])"
    if "i < length (pending (kuzzle r'))" and "pending (kuzzle r') ! i = ?rq" for r' i
    using that count_closure_on_error[OF assms(8), of listening ev d n countResult]
    by (simp add: respond_def Let_def called_def)
  have "req_action ?rq = ''count''"
    "req_cb ?rq = Some (CountK (CountCb listening ev d (UserFn n)))"
    "pending (kuzzle ?r1) = pending (kuzzle r) @ [?rq]"
    "trace (kuzzle ?r1) = trace (kuzzle r) @ [Query ?rq]"
    by simp_all
  with a b show ?thesis by blast
qed

theorem failed_count_reaches_callback_only_when_listening_witness:
  "\<not> subscribing active_listening \<and> truthy (listeningToConnections active_listening) \<and>
   \<not> subscribing active_observed \<and> \<not> truthy (listeningToConnections active_observed) \<and>
   map_of (eventListeners (kuzzle active_observed)) ''subscribed'' = Some [7] \<and>
   truthy (JStr ''down'') \<and>
   (\<exists>r1 r2.
      handler (UserFn 1) peer_subscribed active_listening = (r1, None) \<and>
      trace (kuzzle r1) = trace (kuzzle active_listening) @
        [Query (count_request (JStr ''r1'')
                  (CountCb (JBool True) ''subscribed'' peer_subscribed (UserFn 1)))] \<and>
      respond 0 (JStr ''down'') JUndefined 6 r1 = Some (r2, None) \<and>
      trace (kuzzle r2) = trace (kuzzle r1) @ [Called 1 [JStr ''down'']]) \<and>
   (\<exists>r1 r2.
      handler (UserFn 1) peer_subscribed active_observed = (r1, None) \<and>
      trace (kuzzle r1) = trace (kuzzle active_observed) @
        [Query (count_request (JStr ''r1'')
                  (CountCb (JBool False) ''subscribed'' peer_subscribed (UserFn 1)))] \<and>
      respond 0 (JStr ''down'') JUndefined 6 r1 = Some (r2, None) \<and>
      trace (kuzzle r2) = trace (kuzzle r1))"
proof -
  have d: "get_prop peer_subscribed ''error'' = Inr JUndefined" "\<not> truthy JUndefined"
    "get_prop peer_subscribed ''result'' = Inr (JObj [(''action'', JStr ''on'')])"
    "get_prop (JObj [(''action'', JStr ''on'')]) ''action'' = Inr (JStr ''on'')"
    by (simp_all add: peer_subscribed_def field_def)
  have t: "truthy (JStr ''down'')" by simp
  have a: "\<not> subscribing active_listening" "truthy (listeningToConnections active_listening)"
    "listeningToConnections active_listening = JBool True"
    "pending (kuzzle active_listening) = []"
    by (simp_all add: example_defs active_listening_def active_observed_def)
  have b: "\<not> subscribing active_observed" "\<not> truthy (listeningToConnections active_observed)"
    "listeningToConnections active_observed = JBool False"
    "map_of (eventListeners (kuzzle active_observed)) ''subscribed'' = Some [7]"
    "pending (kuzzle active_observed) = []"
    by (simp_all add: example_defs active_listening_def active_observed_def)
  have ha: "handler (UserFn 1) peer_subscribed active_listening =
     (active_listening\<lparr>kuzzle := query ''c'' ''subscribe'' ''count''
         (JObj [(''body'', JObj [(''roomId'', JStr ''r1'')])])
         (Some (CountK (CountCb (JBool True) ''subscribed'' peer_subscribed (UserFn 1))))
         (kuzzle active_listening)\<rparr>, None)"
    by (simp add: handler_def count_def callbackRequired_def addHeaders_def field_def Let_def
          example_defs active_listening_def active_observed_def peer_subscribed_def)
  have hb: "handler (UserFn 1) peer_subscribed active_observed =
     (active_observed\<lparr>kuzzle := query ''c'' ''subscribe'' ''count''
         (JObj [(''body'', JObj [(''roomId'', JStr ''r1'')])])
         (Some (CountK (CountCb (JBool False) ''subscribed'' peer_subscribed (UserFn 1))))
         (kuzzle active_observed)\<rparr>, None)"
    by (simp add: handler_def count_def callbackRequired_def addHeaders_def field_def Let_def
          example_defs active_listening_def active_observed_def peer_subscribed_def)
  have a6: "(JStr ''on'' = JStr ''on'' \<and> JBool True = listeningToConnections active_listening \<and>
              ''subscribed'' = ''subscribed'') \<or>
             (JStr ''on'' = JStr ''off'' \<and> JBool True = listeningToDisconnections active_listening \<and>
              ''subscribed'' = ''unsubscribed'')"
    using a(3) by simp
  have a7: "truthy (JBool True) \<or>
            (\<exists>l ls. map_of (eventListeners (kuzzle active_listening)) ''subscribed'' = Some (l # ls))"
    by simp
  from failed_count_reaches_callback_only_when_listening[OF a(1) d a6 a7 t, of 1 JUndefined 6]
  obtain r1 rq where
    oa: "handler (UserFn 1) peer_subscribed active_listening = (r1, None)"
      "pending (kuzzle r1) = pending (kuzzle active_listening) @ [rq]"
      "trace (kuzzle r1) = trace (kuzzle active_listening) @ [Query rq]"
      "\<forall>r' i. i < length (pending (kuzzle r')) \<and> pending (kuzzle r') ! i = rq \<longrightarrow>
         (\<exists>r2. respond i (JStr ''down'') JUndefined 6 r' = Some (r2, None) \<and>
               trace (kuzzle r2) =
                 trace (kuzzle r') @
                   (if truthy (JBool True) then [Called 1 [JStr ''down'']] else []))"
    by blast
  from oa(2) a(4) have "0 < length (pending (kuzzle r1)) \<and> pending (kuzzle r1) ! 0 = rq"
    by simp
  with oa(4) obtain r2 where
    oa2: "respond 0 (JStr ''down'') JUndefined 6 r1 = Some (r2, None)"
      "trace (kuzzle r2) = trace (kuzzle r1) @ [Called 1 [JStr ''down'']]"
    by fastforce
  from oa(1) ha oa(2) a(4) have "rq = count_request (JStr ''r1'')
                  (CountCb (JBool True) ''subscribed'' peer_subscribed (UserFn 1))"
    by (simp add: query_def count_request_def Let_def)
  with oa(1,3) oa2 have first: "\<exists>r1 r2.
      handler (UserFn 1) peer_subscribed active_listening = (r1, None) \<and>
      trace (kuzzle r1) = trace (kuzzle active_listening) @
        [Query (count_request (JStr ''r1'')
                  (CountCb (JBool True) ''subscribed'' peer_subscribed (UserFn 1)))] \<and>
      respond 0 (JStr ''down'') JUndefined 6 r1 = Some (r2, None) \<and>
      trace (kuzzle r2) = trace (kuzzle r1) @ [Called 1 [JStr ''down'']]"
    by blast
  have b6: "(JStr ''on'' = JStr ''on'' \<and> JBool False = listeningToConnections active_observed \<and>
              ''subscribed'' = ''subscribed'') \<or>
             (JStr ''on'' = JStr ''off'' \<and> JBool False = listeningToDisconnections active_observed \<and>
              ''subscribed'' = ''unsubscribed'')"
    using b(3) by simp
  have b7: "truthy (JBool False) \<or>
            (\<exists>l ls. map_of (eventListeners (kuzzle active_observed)) ''subscribed'' = Some (l # ls))"
    using b(4) by simp
  from failed_count_reaches_callback_only_when_listening[OF b(1) d b6 b7 t, of 1 JUndefined 6]
  obtain q1 rq' where
    ob: "handler (UserFn 1) peer_subscribed active_observed = (q1, None)"
      "pending (kuzzle q1) = pending (kuzzle active_observed) @ [rq']"
      "trace (kuzzle q1) = trace (kuzzle active_observed) @ [Query rq']"
      "\<forall>r' i. i < length (pending (kuzzle r')) \<and> pending (kuzzle r') ! i = rq' \<longrightarrow>
         (\<exists>r2. respond i (JStr ''down'') JUndefined 6 r' = Some (r2, None) \<and>
               trace (kuzzle r2) =
                 trace (kuzzle r') @
                   (if truthy (JBool False) then [Called 1 [JStr ''down'']] else []))"
    by blast
  from ob(2) b(5) have "0 < length (pending (kuzzle q1)) \<and> pending (kuzzle q1) ! 0 = rq'"
    by simp
  with ob(4) obtain q2 where
    ob2: "respond 0 (JStr ''down'') JUndefined 6 q1 = Some (q2, None)"
      "trace (kuzzle q2) = trace (kuzzle q1)"
    by fastforce
  from ob(1) hb ob(2) b(5) have "rq' = count_request (JStr ''r1'')
                  (CountCb (JBool False) ''subscribed'' peer_subscribed (UserFn 1))"
    by (simp add: query_def count_request_def Let_def)
  with ob(1,3) ob2 have second: "\<exists>r1 r2.
      handler (UserFn 1) peer_subscribed active_observed = (r1, None) \<and>
      trace (kuzzle r1) = trace (kuzzle active_observed) @
        [Query (count_request (JStr ''r1'')
                  (CountCb (JBool False) ''subscribed'' peer_subscribed (UserFn 1)))] \<and>
      respond 0 (JStr ''down'') JUndefined 6 r1 = Some (r2, None) \<and>
      trace (kuzzle r2) = trace (kuzzle r1)"
    by blast
  from first second a b t show ?thesis by simp
qed

section \<open>The connection scenario\<close>

lemma listening_room_constructed:
  "KuzzleRoom (Some collection0) (JObj [(''listeningToConnections'', JBool True)])
     = Inr listening_room"
  by (simp add: KuzzleRoom_def json_roundtrip_def option_or_false_def field_def example_defs
        listening_room_def)

text \<open>
  C9, as stated, fails. The subscribe callback reads \<^verbatim>\<open>response.roomId\<close> and
  \<^verbatim>\<open>response.roomName\<close>: called with \<^verbatim>\<open>{result: {roomId: 'r1', roomName: 's1'}}\<close>
  it stores \<^verbatim>\<open>undefined\<close> and binds the handler under \<^verbatim>\<open>undefined\<close>, so the
  message on channel \<^verbatim>\<open>'r1'\<close> reaches no handler, no count query is sent and
  \<^verbatim>\<open>cb1\<close> is never invoked. And when the subscribe callback is given
  \<^verbatim>\<open>{roomId: 'r1', roomName: 's1'}\<close> itself, the count callback's result
  \<^verbatim>\<open>{count: 3}\<close> is stored whole: \<^verbatim>\<open>cb1\<close> receives
  \<^verbatim>\<open>{action: 'on', count: {count: 3}}\<close>.
\<close>

theorem scenario_as_stated:
  "KuzzleRoom (Some collection0) (JObj [(''listeningToConnections'', JBool True)])
     = Inr listening_room \<and>
   run [Call (Renew (JObj [(''field'', JStr ''x'')]) (JFun (UserFn 1))),
        Response 0 JNull
          (JObj [(''result'', JObj [(''roomId'', JStr ''r1''), (''roomName'', JStr ''s1'')])]) 5,
        Message (JStr ''r1'') peer_subscribed,
        Response 0 JNull (JObj [(''count'', JNum 3)]) 6]
     listening_room
     = Some (listening_room
               \<lparr>filters := JObj [(''field'', JStr ''x'')],
                roomId := JUndefined, subscriptionId := JUndefined,
                subscriptionTimestamp := JNum 5,
                kuzzle := kuzzle0
                  \<lparr>handlers := [(JUndefined, UserFn 1)],
                   trace := [Query (subscribe_request (JObj [(''field'', JStr ''x'')]) (UserFn 1)),
                             SocketOn JUndefined (UserFn 1)]\<rparr>\<rparr>) \<and>
   run [Call (Renew (JObj [(''field'', JStr ''x'')]) (JFun (UserFn 1))),
        Response 0 JNull (JObj [(''roomId'', JStr ''r1''), (''roomName'', JStr ''s1'')]) 5,
        Message (JStr ''r1'') peer_subscribed,
        Response 0 JNull (JObj [(''count'', JNum 3)]) 6]
     listening_room
     = Some (listening_room
               \<lparr>filters := JObj [(''field'', JStr ''x'')],
                roomId := JStr ''r1'', subscriptionId := JStr ''s1'',
                subscriptionTimestamp := JNum 5,
                kuzzle := kuzzle0
                  \<lparr>handlers := [(JStr ''r1'', UserFn 1)],
                   trace := [Query (subscribe_request (JObj [(''field'', JStr ''x'')]) (UserFn 1)),
                             SocketOn (JStr ''r1'') (UserFn 1),
                             Query (count_request (JStr ''r1'')
                                      (CountCb (JBool True) ''subscribed'' peer_subscribed
                                         (UserFn 1))),
                             Called 1 [JNull, JObj [(''action'', JStr ''on''),
                                                    (''count'', JObj [(''count'', JNum 3)])]]]\<rparr>\<rparr>)"
  by (simp add: KuzzleRoom_def json_roundtrip_def option_or_false_def
        run_defs example_defs listening_room_def peer_subscribed_def count_request_def dequeue_Nil)

text \<open>
  C9, amended. In the scenario where a room is constructed with
  \<^verbatim>\<open>listeningToConnections=true\<close>, \<^verbatim>\<open>renew({field:'x'}, cb1)\<close> is called, the
  subscribe callback receives \<^verbatim>\<open>(null, {roomId:'r1', roomName:'s1'})\<close>, an inbound
  message \<^verbatim>\<open>{result:{action:'on'}}\<close> arrives on channel \<^verbatim>\<open>'r1'\<close>, and the count
  callback receives \<^verbatim>\<open>(null, v)\<close>, the callback \<^verbatim>\<open>cb1\<close> is invoked once, with
  \<^verbatim>\<open>(null, {action:'on', count: v})\<close>: the count field is 3 when \<open>v\<close> is 3, and
  \<^verbatim>\<open>{count: 3}\<close> when \<open>v\<close> is \<^verbatim>\<open>{count: 3}\<close>.
\<close>

theorem scenario_count_reaches_callback:
  "KuzzleRoom (Some collection0) (JObj [(''listeningToConnections'', JBool True)])
     = Inr listening_room \<and>
   run [Call (Renew (JObj [(''field'', JStr ''x'')]) (JFun (UserFn 1))),
        Response 0 JNull (JObj [(''roomId'', JStr ''r1''), (''roomName'', JStr ''s1'')]) t1,
        Message (JStr ''r1'') peer_subscribed,
        Response 0 JNull v t2]
     listening_room
     = Some (listening_room
               \<lparr>filters := JObj [(''field'', JStr ''x'')],
                roomId := JStr ''r1'', subscriptionId := JStr ''s1'',
                subscriptionTimestamp := JNum t1,
                kuzzle := kuzzle0
                  \<lparr>handlers := [(JStr ''r1'', UserFn 1)],
                   trace := [Query (subscribe_request (JObj [(''field'', JStr ''x'')]) (UserFn 1)),
                             SocketOn (JStr ''r1'') (UserFn 1),
                             Query (count_request (JStr ''r1'')
                                      (CountCb (JBool True) ''subscribed'' peer_subscribed
                                         (UserFn 1))),
                             Called 1 [JNull, JObj [(''action'', JStr ''on''),
                                                    (''count'', v)]]]\<rparr>\<rparr>)"
  by (simp add: KuzzleRoom_def json_roundtrip_def option_or_false_def
        run_defs example_defs listening_room_def peer_subscribed_def count_request_def dequeue_Nil)

end
